theory Spec2Isabelle
  imports Main "HOL-Library.Word"
begin

unbundle bit_operations_syntax

section \<open>JSON and YAML codecs of the electra API objects\<close>

text \<open>
  A shallow embedding of three Go files of package \<^verbatim>\<open>api/v1/electra\<close>:
  \<^item> \<^verbatim>\<open>blindedbeaconblockbody_json.go\<close>: \<^verbatim>\<open>BlindedBeaconBlockBody.MarshalJSON\<close>,
    \<^verbatim>\<open>UnmarshalJSON\<close> and \<^verbatim>\<open>unpack\<close>;
  \<^item> the JSON codec of \<^verbatim>\<open>SignedBeaconBlock\<close> (\<^verbatim>\<open>MarshalJSON\<close>, \<^verbatim>\<open>UnmarshalJSON\<close>,
    \<^verbatim>\<open>unpack\<close>);
  \<^item> \<^verbatim>\<open>signedblockcontents_yaml.go\<close>: \<^verbatim>\<open>SignedBlockContents.MarshalYAML\<close> and
    \<^verbatim>\<open>UnmarshalYAML\<close>.

  A Go string is a sequence of bytes, as an Isabelle \<^typ>\<open>string\<close> is; a byte is an
  \<^typ>\<open>8 word\<close>. A pointer is an \<^typ>\<open>'a option\<close> (\<^term>\<open>None\<close> is \<^verbatim>\<open>nil\<close>), a
  slice is a \<^typ>\<open>'a list option\<close> (\<^term>\<open>None\<close> is the \<^verbatim>\<open>nil\<close> slice, \<^term>\<open>Some []\<close>
  the empty one, which the code tells apart). A fixed-size byte array is the list of its
  bytes. The nested objects (\<^verbatim>\<open>ETH1Data\<close>, slashings, attestations, ...) have codecs of
  their own and are type parameters here. A method that writes through its receiver takes
  the receiver's value and returns the error (if any) together with the receiver's new
  value. The functions of the JSON and YAML libraries (\<^verbatim>\<open>json.Marshal\<close>,
  \<^verbatim>\<open>json.Unmarshal\<close>, \<^verbatim>\<open>yaml.MarshalWithOptions\<close>, \<^verbatim>\<open>yaml.Unmarshal\<close>) are
  parameters of the methods that call them; they return the error or the result.
\<close>

subsection \<open>Errors\<close>

text \<open>
  \<^verbatim>\<open>errors.New(msg)\<close>, \<^verbatim>\<open>fmt.Errorf(fmt, n)\<close> with a single \<^verbatim>\<open>%d\<close>, and
  \<^verbatim>\<open>errors.Wrap(err, msg)\<close>; the two errors of \<^verbatim>\<open>encoding/hex\<close>; and the errors of the
  JSON and YAML libraries, which are not interpreted.
\<close>

datatype error =
    ErrLength
  | InvalidByteError char
  | LibError string
  | New string
  | Errorf string nat
  | Wrap error string

type_synonym byte = "8 word"

subsection \<open>Library functions used by the codecs\<close>

text \<open>\<^verbatim>\<open>strings.TrimPrefix\<close>: \<^verbatim>\<open>s\<close> without the leading \<^verbatim>\<open>prefix\<close>, or \<^verbatim>\<open>s\<close> itself.\<close>

definition TrimPrefix :: "string \<Rightarrow> string \<Rightarrow> string" where
  "TrimPrefix s prefix =
     (if take (length prefix) s = prefix then drop (length prefix) s else s)"

text \<open>
  \<^verbatim>\<open>encoding/hex\<close>: \<^verbatim>\<open>fromHexChar\<close> accepts the digits and the letters a-f in both cases;
  \<^verbatim>\<open>Decode\<close> reads two characters per byte, reports the first character that is no hex
  digit, and \<^verbatim>\<open>ErrLength\<close> for an odd number of (valid) characters.
\<close>

definition fromHexChar :: "char \<Rightarrow> byte option" where
  "fromHexChar c =
     (let n = of_char c :: nat in
      if 48 \<le> n \<and> n \<le> 57 then Some (of_nat (n - 48))
      else if 97 \<le> n \<and> n \<le> 102 then Some (of_nat (n - 97 + 10))
      else if 65 \<le> n \<and> n \<le> 70 then Some (of_nat (n - 65 + 10))
      else None)"

fun Decode :: "string \<Rightarrow> error + byte list" where
  "Decode [] = Inr []"
| "Decode [p] =
     (case fromHexChar p of None \<Rightarrow> Inl (InvalidByteError p) | Some a \<Rightarrow> Inl ErrLength)"
| "Decode (p # q # rest) =
     (case fromHexChar p of
        None \<Rightarrow> Inl (InvalidByteError p)
      | Some a \<Rightarrow>
          (case fromHexChar q of
             None \<Rightarrow> Inl (InvalidByteError q)
           | Some b \<Rightarrow>
               (case Decode rest of
                  Inl err \<Rightarrow> Inl err
                | Inr bs \<Rightarrow> Inr ((push_bit 4 a OR b) # bs))))"

definition DecodeString :: "string \<Rightarrow> error + byte list" where
  "DecodeString s = Decode s"

text \<open>
  \<^verbatim>\<open>fmt.Sprintf("%#x", b)\<close> on a byte array or slice: two lower-case digits per byte,
  after a single leading \<^verbatim>\<open>0x\<close>; nothing at all for no bytes.
\<close>

definition hextable :: string where
  "hextable = ''0123456789abcdef''"

definition hexbyte :: "byte \<Rightarrow> string" where
  "hexbyte v = [hextable ! unat (drop_bit 4 v), hextable ! unat (v AND 0x0f)]"

definition Sprintf_sharp_x :: "byte list \<Rightarrow> string" where
  "Sprintf_sharp_x b = (if b = [] then [] else ''0x'' @ concat (map hexbyte b))"

text \<open>The builtin \<^verbatim>\<open>copy(dst, src)\<close>: the first \<^verbatim>\<open>min(len(dst), len(src))\<close> elements.\<close>

definition copy :: "'a list \<Rightarrow> 'a list \<Rightarrow> 'a list" where
  "copy dst src = take (length dst) src @ drop (length src) dst"

text \<open>
  \<^verbatim>\<open>bytes.ReplaceAll(s, old, new)\<close>: the non-overlapping instances of \<^verbatim>\<open>old\<close>, from
  the left. (For an empty \<^verbatim>\<open>old\<close> Go inserts \<^verbatim>\<open>new\<close> before every UTF-8 sequence and
  at the end; the equation below does so bytewise, which is the same on ASCII.)
\<close>

function ReplaceAll :: "string \<Rightarrow> string \<Rightarrow> string \<Rightarrow> string" where
  "ReplaceAll s old new =
     (if old = [] then new @ concat (map (\<lambda>c. c # new) s)
      else if s = [] then []
      else if take (length old) s = old then new @ ReplaceAll (drop (length old) s) old new
      else hd s # ReplaceAll (tl s) old new)"
  by pat_completeness auto
termination
  by (relation "measure (\<lambda>(s, old, new). length s)") auto

declare ReplaceAll.simps [simp del]

text \<open>
  Modelled from the spec: the lengths \<^verbatim>\<open>phase0.SignatureLength\<close>,
  \<^verbatim>\<open>phase0.GraffitiLength\<close> and \<^verbatim>\<open>deneb.KZGCommitmentLength\<close> are declared outside the
  three files; the spec gives 96 bytes for signatures and RANDAO reveals, 32 for graffiti
  and 48 for a blob KZG commitment.
\<close>

definition SignatureLength :: nat where
  "SignatureLength = 96"

definition GraffitiLength :: nat where
  "GraffitiLength = 32"

definition KZGCommitmentLength :: nat where
  "KZGCommitmentLength = 48"

text \<open>
  Modelled from the spec: \<^verbatim>\<open>deneb.KZGCommitment.String\<close> is declared outside the three
  files; byte fields are rendered as lower-case hex after a \<^verbatim>\<open>0x\<close> prefix.
\<close>

definition KZGCommitment_String :: "byte list \<Rightarrow> string" where
  "KZGCommitment_String c = ''0x'' @ concat (map hexbyte c)"

subsection \<open>Sequencing\<close>

text \<open>
  The statements of \<^verbatim>\<open>unpack\<close> run in order on the receiver, and a \<^verbatim>\<open>return err\<close>
  ends the method with the receiver as it is at that point.
\<close>

definition andThen ::
  "('s \<Rightarrow> error option \<times> 's) \<Rightarrow> ('s \<Rightarrow> error option \<times> 's) \<Rightarrow> 's \<Rightarrow> error option \<times> 's"
where
  "andThen f g s = (case f s of (None, s') \<Rightarrow> g s' | (Some err, s') \<Rightarrow> (Some err, s'))"

text \<open>
  \<^verbatim>\<open>for i := range xs { if xs[i] == nil { return fmt.Errorf(msg, i) } }\<close>, from index
  \<^verbatim>\<open>i\<close> on; \<^verbatim>\<open>isnil\<close> is the test of the element (\<^verbatim>\<open>== nil\<close> or \<^verbatim>\<open>== ""\<close>).
\<close>

fun range_check :: "('a \<Rightarrow> bool) \<Rightarrow> string \<Rightarrow> 'a list \<Rightarrow> nat \<Rightarrow> error option" where
  "range_check isnil msg [] i = None"
| "range_check isnil msg (x # xs) i =
     (if isnil x then Some (Errorf msg i) else range_check isnil msg xs (Suc i))"

subsection \<open>SignedBeaconBlock\<close>

record 'blk signedBeaconBlockJSON =
  json_Message :: "'blk option"
  json_Signature :: string

record 'blk SignedBeaconBlock =
  Message :: "'blk option"
  Signature :: "byte list"

definition signedBeaconBlockJSON_of :: "'blk SignedBeaconBlock \<Rightarrow> 'blk signedBeaconBlockJSON" where
  "signedBeaconBlockJSON_of s =
     \<lparr>json_Message = Message s,
      json_Signature = Sprintf_sharp_x (Signature s)\<rparr>"

definition SignedBeaconBlock_MarshalJSON ::
  "('blk signedBeaconBlockJSON \<Rightarrow> error + string) \<Rightarrow> 'blk SignedBeaconBlock \<Rightarrow> error + string"
where
  "SignedBeaconBlock_MarshalJSON json_Marshal s = json_Marshal (signedBeaconBlockJSON_of s)"

definition SignedBeaconBlock_unpack ::
  "'blk signedBeaconBlockJSON \<Rightarrow> 'blk SignedBeaconBlock \<Rightarrow> error option \<times> 'blk SignedBeaconBlock"
where
  "SignedBeaconBlock_unpack data s =
     (if json_Message data = None then (Some (New ''message missing''), s)
      else
        let s = s\<lparr>Message := json_Message data\<rparr> in
        if json_Signature data = [] then (Some (New ''signature missing''), s)
        else
          (case DecodeString (TrimPrefix (json_Signature data) ''0x'') of
             Inl err \<Rightarrow> (Some (Wrap err ''invalid value for signature''), s)
           | Inr signature \<Rightarrow>
               if length signature \<noteq> SignatureLength
               then (Some (Errorf ''incorrect length %d for signature'' (length signature)), s)
               else (None, s\<lparr>Signature := copy (Signature s) signature\<rparr>)))"

definition SignedBeaconBlock_UnmarshalJSON ::
  "(string \<Rightarrow> error + 'blk signedBeaconBlockJSON) \<Rightarrow> string \<Rightarrow> 'blk SignedBeaconBlock
     \<Rightarrow> error option \<times> 'blk SignedBeaconBlock"
where
  "SignedBeaconBlock_UnmarshalJSON json_Unmarshal input s =
     (case json_Unmarshal input of
        Inl err \<Rightarrow> (Some (Wrap err ''invalid JSON''), s)
      | Inr data \<Rightarrow> SignedBeaconBlock_unpack data s)"

subsection \<open>BlindedBeaconBlockBody\<close>

record ('eth1, 'psl, 'asl, 'att, 'dep, 'vex, 'syn, 'eph, 'bls, 'exr) blindedBeaconBlockBodyJSON =
  json_RANDAOReveal :: string
  json_ETH1Data :: "'eth1 option"
  json_Graffiti :: string
  json_ProposerSlashings :: "'psl option list option"
  json_AttesterSlashings :: "'asl option list option"
  json_Attestations :: "'att option list option"
  json_Deposits :: "'dep option list option"
  json_VoluntaryExits :: "'vex option list option"
  json_SyncAggregate :: "'syn option"
  json_ExecutionPayloadHeader :: "'eph option"
  json_BLSToExecutionChanges :: "'bls option list option"
  json_BlobKZGCommitments :: "string list option"
  json_ExecutionRequests :: "'exr option"

record ('eth1, 'psl, 'asl, 'att, 'dep, 'vex, 'syn, 'eph, 'bls, 'exr) BlindedBeaconBlockBody =
  RANDAOReveal :: "byte list"
  ETH1Data :: "'eth1 option"
  Graffiti :: "byte list"
  ProposerSlashings :: "'psl option list option"
  AttesterSlashings :: "'asl option list option"
  Attestations :: "'att option list option"
  Deposits :: "'dep option list option"
  VoluntaryExits :: "'vex option list option"
  SyncAggregate :: "'syn option"
  ExecutionPayloadHeader :: "'eph option"
  BLSToExecutionChanges :: "'bls option list option"
  BlobKZGCommitments :: "byte list list option"
  ExecutionRequests :: "'exr option"

text \<open>
  The statements of one field in \<^verbatim>\<open>unpack\<close>: from the document and the receiver to
  the error, if any, and the receiver as the statements leave it.
\<close>

type_synonym ('eth1, 'psl, 'asl, 'att, 'dep, 'vex, 'syn, 'eph, 'bls, 'exr) unpack_step =
  "('eth1, 'psl, 'asl, 'att, 'dep, 'vex, 'syn, 'eph, 'bls, 'exr) blindedBeaconBlockBodyJSON
     \<Rightarrow> ('eth1, 'psl, 'asl, 'att, 'dep, 'vex, 'syn, 'eph, 'bls, 'exr) BlindedBeaconBlockBody
     \<Rightarrow> error option \<times> ('eth1, 'psl, 'asl, 'att, 'dep, 'vex, 'syn, 'eph, 'bls, 'exr) BlindedBeaconBlockBody"

text \<open>
  The value \<^verbatim>\<open>MarshalJSON\<close> hands to \<^verbatim>\<open>json.Marshal\<close>. The commitments are copied into
  a slice made with \<^verbatim>\<open>make\<close>, which is never \<^verbatim>\<open>nil\<close>; the length of a \<^verbatim>\<open>nil\<close> slice
  is 0.
\<close>

definition blindedBeaconBlockBodyJSON_of ::
  "('eth1, 'psl, 'asl, 'att, 'dep, 'vex, 'syn, 'eph, 'bls, 'exr) BlindedBeaconBlockBody
     \<Rightarrow> ('eth1, 'psl, 'asl, 'att, 'dep, 'vex, 'syn, 'eph, 'bls, 'exr) blindedBeaconBlockBodyJSON"
where
  "blindedBeaconBlockBodyJSON_of b =
     (let blobKZGCommitments =
            map KZGCommitment_String (case BlobKZGCommitments b of None \<Rightarrow> [] | Some cs \<Rightarrow> cs)
      in
      \<lparr>json_RANDAOReveal = Sprintf_sharp_x (RANDAOReveal b),
       json_ETH1Data = ETH1Data b,
       json_Graffiti = Sprintf_sharp_x (Graffiti b),
       json_ProposerSlashings = ProposerSlashings b,
       json_AttesterSlashings = AttesterSlashings b,
       json_Attestations = Attestations b,
       json_Deposits = Deposits b,
       json_VoluntaryExits = VoluntaryExits b,
       json_SyncAggregate = SyncAggregate b,
       json_ExecutionPayloadHeader = ExecutionPayloadHeader b,
       json_BLSToExecutionChanges = BLSToExecutionChanges b,
       json_BlobKZGCommitments = Some blobKZGCommitments,
       json_ExecutionRequests = ExecutionRequests b\<rparr>)"

definition BlindedBeaconBlockBody_MarshalJSON ::
  "(('eth1, 'psl, 'asl, 'att, 'dep, 'vex, 'syn, 'eph, 'bls, 'exr) blindedBeaconBlockBodyJSON \<Rightarrow> error + string)
     \<Rightarrow> ('eth1, 'psl, 'asl, 'att, 'dep, 'vex, 'syn, 'eph, 'bls, 'exr) BlindedBeaconBlockBody
     \<Rightarrow> error + string"
where
  "BlindedBeaconBlockBody_MarshalJSON json_Marshal b =
     json_Marshal (blindedBeaconBlockBodyJSON_of b)"

text \<open>
  \<^verbatim>\<open>unpack\<close>, one definition for the statements of each field, in the order of the
  source.
\<close>

definition unpack_RANDAOReveal ::
  "('eth1, 'psl, 'asl, 'att, 'dep, 'vex, 'syn, 'eph, 'bls, 'exr) unpack_step"
where
  "unpack_RANDAOReveal data b =
     (if json_RANDAOReveal data = [] then (Some (New ''RANDAO reveal missing''), b)
      else
        (case DecodeString (TrimPrefix (json_RANDAOReveal data) ''0x'') of
           Inl err \<Rightarrow> (Some (Wrap err ''invalid value for RANDAO reveal''), b)
         | Inr randaoReveal \<Rightarrow>
             if length randaoReveal \<noteq> SignatureLength
             then (Some (New ''incorrect length for RANDAO reveal''), b)
             else (None, b\<lparr>RANDAOReveal := copy (RANDAOReveal b) randaoReveal\<rparr>)))"

definition unpack_ETH1Data ::
  "('eth1, 'psl, 'asl, 'att, 'dep, 'vex, 'syn, 'eph, 'bls, 'exr) unpack_step"
where
  "unpack_ETH1Data data b =
     (if json_ETH1Data data = None then (Some (New ''ETH1 data missing''), b)
      else (None, b\<lparr>ETH1Data := json_ETH1Data data\<rparr>))"

definition unpack_Graffiti ::
  "('eth1, 'psl, 'asl, 'att, 'dep, 'vex, 'syn, 'eph, 'bls, 'exr) unpack_step"
where
  "unpack_Graffiti data b =
     (if json_Graffiti data = [] then (Some (New ''graffiti missing''), b)
      else
        (case DecodeString (TrimPrefix (json_Graffiti data) ''0x'') of
           Inl err \<Rightarrow> (Some (Wrap err ''invalid value for graffiti''), b)
         | Inr graffiti \<Rightarrow>
             if length graffiti \<noteq> GraffitiLength
             then (Some (New ''incorrect length for graffiti''), b)
             else (None, b\<lparr>Graffiti := copy (Graffiti b) graffiti\<rparr>)))"

definition unpack_ProposerSlashings ::
  "('eth1, 'psl, 'asl, 'att, 'dep, 'vex, 'syn, 'eph, 'bls, 'exr) unpack_step"
where
  "unpack_ProposerSlashings data b =
     (case json_ProposerSlashings data of
        None \<Rightarrow> (Some (New ''proposer slashings missing''), b)
      | Some xs \<Rightarrow>
          (case range_check (\<lambda>x. x = None) ''proposer slashings entry %d missing'' xs 0 of
             Some err \<Rightarrow> (Some err, b)
           | None \<Rightarrow> (None, b\<lparr>ProposerSlashings := json_ProposerSlashings data\<rparr>)))"

definition unpack_AttesterSlashings ::
  "('eth1, 'psl, 'asl, 'att, 'dep, 'vex, 'syn, 'eph, 'bls, 'exr) unpack_step"
where
  "unpack_AttesterSlashings data b =
     (case json_AttesterSlashings data of
        None \<Rightarrow> (Some (New ''attester slashings missing''), b)
      | Some xs \<Rightarrow>
          (case range_check (\<lambda>x. x = None) ''attester slashings entry %d missing'' xs 0 of
             Some err \<Rightarrow> (Some err, b)
           | None \<Rightarrow> (None, b\<lparr>AttesterSlashings := json_AttesterSlashings data\<rparr>)))"

definition unpack_Attestations ::
  "('eth1, 'psl, 'asl, 'att, 'dep, 'vex, 'syn, 'eph, 'bls, 'exr) unpack_step"
where
  "unpack_Attestations data b =
     (case json_Attestations data of
        None \<Rightarrow> (Some (New ''attestations missing''), b)
      | Some xs \<Rightarrow>
          (case range_check (\<lambda>x. x = None) ''attestations entry %d missing'' xs 0 of
             Some err \<Rightarrow> (Some err, b)
           | None \<Rightarrow> (None, b\<lparr>Attestations := json_Attestations data\<rparr>)))"

definition unpack_Deposits ::
  "('eth1, 'psl, 'asl, 'att, 'dep, 'vex, 'syn, 'eph, 'bls, 'exr) unpack_step"
where
  "unpack_Deposits data b =
     (case json_Deposits data of
        None \<Rightarrow> (Some (New ''deposits missing''), b)
      | Some xs \<Rightarrow>
          (case range_check (\<lambda>x. x = None) ''deposits entry %d missing'' xs 0 of
             Some err \<Rightarrow> (Some err, b)
           | None \<Rightarrow> (None, b\<lparr>Deposits := json_Deposits data\<rparr>)))"

definition unpack_VoluntaryExits ::
  "('eth1, 'psl, 'asl, 'att, 'dep, 'vex, 'syn, 'eph, 'bls, 'exr) unpack_step"
where
  "unpack_VoluntaryExits data b =
     (case json_VoluntaryExits data of
        None \<Rightarrow> (Some (New ''voluntary exits missing''), b)
      | Some xs \<Rightarrow>
          (case range_check (\<lambda>x. x = None) ''voluntary exits entry %d missing'' xs 0 of
             Some err \<Rightarrow> (Some err, b)
           | None \<Rightarrow> (None, b\<lparr>VoluntaryExits := json_VoluntaryExits data\<rparr>)))"

definition unpack_SyncAggregate ::
  "('eth1, 'psl, 'asl, 'att, 'dep, 'vex, 'syn, 'eph, 'bls, 'exr) unpack_step"
where
  "unpack_SyncAggregate data b =
     (if json_SyncAggregate data = None then (Some (New ''sync aggregate missing''), b)
      else (None, b\<lparr>SyncAggregate := json_SyncAggregate data\<rparr>))"

definition unpack_ExecutionPayloadHeader ::
  "('eth1, 'psl, 'asl, 'att, 'dep, 'vex, 'syn, 'eph, 'bls, 'exr) unpack_step"
where
  "unpack_ExecutionPayloadHeader data b =
     (if json_ExecutionPayloadHeader data = None then (Some (New ''execution payload header missing''), b)
      else (None, b\<lparr>ExecutionPayloadHeader := json_ExecutionPayloadHeader data\<rparr>))"

definition unpack_BLSToExecutionChanges ::
  "('eth1, 'psl, 'asl, 'att, 'dep, 'vex, 'syn, 'eph, 'bls, 'exr) unpack_step"
where
  "unpack_BLSToExecutionChanges data b =
     (case json_BLSToExecutionChanges data of
        None \<Rightarrow> (None, b\<lparr>BLSToExecutionChanges := Some []\<rparr>)
      | Some xs \<Rightarrow>
          (case range_check (\<lambda>x. x = None) ''bls to execution changes entry %d missing'' xs 0 of
             Some err \<Rightarrow> (Some err, b)
           | None \<Rightarrow> (None, b\<lparr>BLSToExecutionChanges := json_BLSToExecutionChanges data\<rparr>)))"

text \<open>
  The second loop over the commitments, from index \<^verbatim>\<open>i\<close> on: \<^verbatim>\<open>out\<close> is
  \<^verbatim>\<open>b.BlobKZGCommitments\<close>, which the loop fills entry by entry, so that a \<^verbatim>\<open>return\<close>
  in the middle leaves the entries before \<^verbatim>\<open>i\<close> written and the others zero.
\<close>

fun decode_commitments ::
  "string list \<Rightarrow> byte list list \<Rightarrow> nat \<Rightarrow> error option \<times> byte list list"
where
  "decode_commitments [] out i = (None, out)"
| "decode_commitments (c # cs) out i =
     (case DecodeString (TrimPrefix c ''0x'') of
        Inl err \<Rightarrow> (Some (Wrap err ''failed to parse blob KZG commitment''), out)
      | Inr data \<Rightarrow>
          if length data \<noteq> KZGCommitmentLength
          then (Some (New ''incorrect length for blob KZG commitment''), out)
          else decode_commitments cs (out[i := copy (out ! i) data]) (Suc i))"

definition unpack_BlobKZGCommitments ::
  "('eth1, 'psl, 'asl, 'att, 'dep, 'vex, 'syn, 'eph, 'bls, 'exr) unpack_step"
where
  "unpack_BlobKZGCommitments data b =
     (case json_BlobKZGCommitments data of
        None \<Rightarrow> (Some (New ''blob KZG commitments missing''), b)
      | Some cs \<Rightarrow>
          (case range_check (\<lambda>c. c = []) ''blob KZG commitments entry %d missing'' cs 0 of
             Some err \<Rightarrow> (Some err, b)
           | None \<Rightarrow>
               (case decode_commitments cs
                       (replicate (length cs) (replicate KZGCommitmentLength 0)) 0 of
                  (err, out) \<Rightarrow> (err, b\<lparr>BlobKZGCommitments := Some out\<rparr>))))"

definition unpack_ExecutionRequests ::
  "('eth1, 'psl, 'asl, 'att, 'dep, 'vex, 'syn, 'eph, 'bls, 'exr) unpack_step"
where
  "unpack_ExecutionRequests data b =
     (if json_ExecutionRequests data = None then (Some (New ''execution requests missing''), b)
      else (None, b\<lparr>ExecutionRequests := json_ExecutionRequests data\<rparr>))"

definition BlindedBeaconBlockBody_unpack ::
  "('eth1, 'psl, 'asl, 'att, 'dep, 'vex, 'syn, 'eph, 'bls, 'exr) unpack_step"
where
  "BlindedBeaconBlockBody_unpack data =
     andThen (unpack_RANDAOReveal data)
    (andThen (unpack_ETH1Data data)
    (andThen (unpack_Graffiti data)
    (andThen (unpack_ProposerSlashings data)
    (andThen (unpack_AttesterSlashings data)
    (andThen (unpack_Attestations data)
    (andThen (unpack_Deposits data)
    (andThen (unpack_VoluntaryExits data)
    (andThen (unpack_SyncAggregate data)
    (andThen (unpack_ExecutionPayloadHeader data)
    (andThen (unpack_BLSToExecutionChanges data)
    (andThen (unpack_BlobKZGCommitments data)
             (unpack_ExecutionRequests data))))))))))))"

definition BlindedBeaconBlockBody_UnmarshalJSON ::
  "(string \<Rightarrow> error + ('eth1, 'psl, 'asl, 'att, 'dep, 'vex, 'syn, 'eph, 'bls, 'exr) blindedBeaconBlockBodyJSON)
     \<Rightarrow> string
     \<Rightarrow> ('eth1, 'psl, 'asl, 'att, 'dep, 'vex, 'syn, 'eph, 'bls, 'exr) BlindedBeaconBlockBody
     \<Rightarrow> error option \<times> ('eth1, 'psl, 'asl, 'att, 'dep, 'vex, 'syn, 'eph, 'bls, 'exr) BlindedBeaconBlockBody"
where
  "BlindedBeaconBlockBody_UnmarshalJSON json_Unmarshal input b =
     (case json_Unmarshal input of
        Inl err \<Rightarrow> (Some (Wrap err ''invalid JSON''), b)
      | Inr data \<Rightarrow> BlindedBeaconBlockBody_unpack data b)"

subsection \<open>SignedBlockContents\<close>

text \<open>
  \<^verbatim>\<open>signedBlockContentsYAML\<close>; a \<^verbatim>\<open>deneb.KZGProof\<close> and a \<^verbatim>\<open>deneb.Blob\<close> are byte
  arrays. The struct \<^verbatim>\<open>signedBlockContentsJSON\<close> and \<^verbatim>\<open>SignedBlockContents.UnmarshalJSON\<close>
  are declared in another file of the package: the first is the type parameter \<^typ>\<open>'wire\<close>
  below and the second a parameter of \<^verbatim>\<open>UnmarshalYAML\<close>, as the functions of the YAML
  and JSON libraries are.
\<close>

record 'blk SignedBlockContents =
  SignedBlock :: "'blk SignedBeaconBlock option"
  KZGProofs :: "byte list list option"
  Blobs :: "byte list list option"

record 'blk signedBlockContentsYAML =
  yaml_SignedBlock :: "'blk SignedBeaconBlock option"
  yaml_KZGProofs :: "byte list list option"
  yaml_Blobs :: "byte list list option"

datatype yaml_option = Flow bool

definition SignedBlockContents_MarshalYAML ::
  "('blk signedBlockContentsYAML \<Rightarrow> yaml_option list \<Rightarrow> error + string)
     \<Rightarrow> 'blk SignedBlockContents \<Rightarrow> error + string"
where
  "SignedBlockContents_MarshalYAML yaml_MarshalWithOptions s =
     (case yaml_MarshalWithOptions
             \<lparr>yaml_SignedBlock = SignedBlock s,
              yaml_KZGProofs = KZGProofs s,
              yaml_Blobs = Blobs s\<rparr> [Flow True] of
        Inl err \<Rightarrow> Inl err
      | Inr yamlBytes \<Rightarrow> Inr (ReplaceAll yamlBytes [CHR 0x22] [CHR 0x27]))"


section \<open>Valid documents, and what unpack makes of them\<close>

subsection \<open>What a valid document is\<close>

text \<open>
  The bytes a hex string stands for, and whether a hex string is a present value of
  \<open>n\<close> bytes; whether a sequence is present with no \<^verbatim>\<open>null\<close> element; the index of
  the first element that satisfies a test.
\<close>

definition hex_bytes :: "string \<Rightarrow> byte list" where
  "hex_bytes s = (case DecodeString (TrimPrefix s ''0x'') of Inl err \<Rightarrow> [] | Inr bs \<Rightarrow> bs)"

definition valid_hex :: "nat \<Rightarrow> string \<Rightarrow> bool" where
  "valid_hex n s \<longleftrightarrow>
     s \<noteq> [] \<and>
     (case DecodeString (TrimPrefix s ''0x'') of Inl err \<Rightarrow> False | Inr bs \<Rightarrow> length bs = n)"

definition valid_seq :: "'a option list option \<Rightarrow> bool" where
  "valid_seq xs = (case xs of None \<Rightarrow> False | Some ys \<Rightarrow> list_all (\<lambda>x. x \<noteq> None) ys)"

definition first_index :: "('a \<Rightarrow> bool) \<Rightarrow> 'a list \<Rightarrow> nat" where
  "first_index P xs = length (takeWhile (\<lambda>x. \<not> P x) xs)"

text \<open>The fields of a blinded block body, in the order in which \<^verbatim>\<open>unpack\<close> checks them.\<close>

datatype field =
    f_randao_reveal | f_eth1_data | f_graffiti | f_proposer_slashings | f_attester_slashings
  | f_attestations | f_deposits | f_voluntary_exits | f_sync_aggregate
  | f_execution_payload_header | f_bls_to_execution_changes | f_blob_kzg_commitments
  | f_execution_requests

definition all_fields :: "field list" where
  "all_fields =
     [f_randao_reveal, f_eth1_data, f_graffiti, f_proposer_slashings, f_attester_slashings,
      f_attestations, f_deposits, f_voluntary_exits, f_sync_aggregate,
      f_execution_payload_header, f_bls_to_execution_changes, f_blob_kzg_commitments,
      f_execution_requests]"

fun field_valid ::
  "field
     \<Rightarrow> ('eth1, 'psl, 'asl, 'att, 'dep, 'vex, 'syn, 'eph, 'bls, 'exr) blindedBeaconBlockBodyJSON
     \<Rightarrow> bool"
where
  "field_valid f_randao_reveal d = valid_hex SignatureLength (json_RANDAOReveal d)"
| "field_valid f_eth1_data d = (json_ETH1Data d \<noteq> None)"
| "field_valid f_graffiti d = valid_hex GraffitiLength (json_Graffiti d)"
| "field_valid f_proposer_slashings d = valid_seq (json_ProposerSlashings d)"
| "field_valid f_attester_slashings d = valid_seq (json_AttesterSlashings d)"
| "field_valid f_attestations d = valid_seq (json_Attestations d)"
| "field_valid f_deposits d = valid_seq (json_Deposits d)"
| "field_valid f_voluntary_exits d = valid_seq (json_VoluntaryExits d)"
| "field_valid f_sync_aggregate d = (json_SyncAggregate d \<noteq> None)"
| "field_valid f_execution_payload_header d = (json_ExecutionPayloadHeader d \<noteq> None)"
| "field_valid f_bls_to_execution_changes d =
     (case json_BLSToExecutionChanges d of
        None \<Rightarrow> True
      | Some xs \<Rightarrow> list_all (\<lambda>x. x \<noteq> None) xs)"
| "field_valid f_blob_kzg_commitments d =
     (case json_BlobKZGCommitments d of
        None \<Rightarrow> False
      | Some cs \<Rightarrow> list_all (valid_hex KZGCommitmentLength) cs)"
| "field_valid f_execution_requests d = (json_ExecutionRequests d \<noteq> None)"

text \<open>The value a valid field of the document gives to the object.\<close>

fun write_field ::
  "('eth1, 'psl, 'asl, 'att, 'dep, 'vex, 'syn, 'eph, 'bls, 'exr) blindedBeaconBlockBodyJSON
     \<Rightarrow> field
     \<Rightarrow> ('eth1, 'psl, 'asl, 'att, 'dep, 'vex, 'syn, 'eph, 'bls, 'exr) BlindedBeaconBlockBody
     \<Rightarrow> ('eth1, 'psl, 'asl, 'att, 'dep, 'vex, 'syn, 'eph, 'bls, 'exr) BlindedBeaconBlockBody"
where
  "write_field d f_randao_reveal b = b\<lparr>RANDAOReveal := hex_bytes (json_RANDAOReveal d)\<rparr>"
| "write_field d f_eth1_data b = b\<lparr>ETH1Data := json_ETH1Data d\<rparr>"
| "write_field d f_graffiti b = b\<lparr>Graffiti := hex_bytes (json_Graffiti d)\<rparr>"
| "write_field d f_proposer_slashings b = b\<lparr>ProposerSlashings := json_ProposerSlashings d\<rparr>"
| "write_field d f_attester_slashings b = b\<lparr>AttesterSlashings := json_AttesterSlashings d\<rparr>"
| "write_field d f_attestations b = b\<lparr>Attestations := json_Attestations d\<rparr>"
| "write_field d f_deposits b = b\<lparr>Deposits := json_Deposits d\<rparr>"
| "write_field d f_voluntary_exits b = b\<lparr>VoluntaryExits := json_VoluntaryExits d\<rparr>"
| "write_field d f_sync_aggregate b = b\<lparr>SyncAggregate := json_SyncAggregate d\<rparr>"
| "write_field d f_execution_payload_header b =
     b\<lparr>ExecutionPayloadHeader := json_ExecutionPayloadHeader d\<rparr>"
| "write_field d f_bls_to_execution_changes b =
     b\<lparr>BLSToExecutionChanges :=
          Some (case json_BLSToExecutionChanges d of None \<Rightarrow> [] | Some xs \<Rightarrow> xs)\<rparr>"
| "write_field d f_blob_kzg_commitments b =
     b\<lparr>BlobKZGCommitments :=
          Some (map hex_bytes (case json_BlobKZGCommitments d of None \<Rightarrow> [] | Some cs \<Rightarrow> cs))\<rparr>"
| "write_field d f_execution_requests b = b\<lparr>ExecutionRequests := json_ExecutionRequests d\<rparr>"

definition fields_before :: "field \<Rightarrow> field list" where
  "fields_before f = takeWhile (\<lambda>g. g \<noteq> f) all_fields"

definition checks_before ::
  "field
     \<Rightarrow> ('eth1, 'psl, 'asl, 'att, 'dep, 'vex, 'syn, 'eph, 'bls, 'exr) blindedBeaconBlockBodyJSON
     \<Rightarrow> bool"
where
  "checks_before f d = list_all (\<lambda>g. field_valid g d) (fields_before f)"

definition valid_body ::
  "('eth1, 'psl, 'asl, 'att, 'dep, 'vex, 'syn, 'eph, 'bls, 'exr) blindedBeaconBlockBodyJSON
     \<Rightarrow> bool"
where
  "valid_body d = list_all (\<lambda>g. field_valid g d) all_fields"

definition first_invalid ::
  "('eth1, 'psl, 'asl, 'att, 'dep, 'vex, 'syn, 'eph, 'bls, 'exr) blindedBeaconBlockBodyJSON
     \<Rightarrow> field option"
where
  "first_invalid d = find (\<lambda>g. \<not> field_valid g d) all_fields"

text \<open>
  The arrays of an object have their lengths, whatever the object holds: every value of
  the Go types does.
\<close>

definition array_lengths ::
  "('eth1, 'psl, 'asl, 'att, 'dep, 'vex, 'syn, 'eph, 'bls, 'exr) BlindedBeaconBlockBody
     \<Rightarrow> bool"
where
  "array_lengths b \<longleftrightarrow>
     length (RANDAOReveal b) = SignatureLength \<and>
     length (Graffiti b) = GraffitiLength \<and>
     (case BlobKZGCommitments b of
        None \<Rightarrow> True
      | Some cs \<Rightarrow> list_all (\<lambda>c. length c = KZGCommitmentLength) cs)"

subsection \<open>The error of an invalid field\<close>

text \<open>
  The error that \<^verbatim>\<open>unpack\<close> returns for a field that is not valid, read off the
  document alone; and what the statements of that field have written by then (nothing,
  except for the commitments, whose array is allocated and filled up to the entry that
  fails).
\<close>

definition hex_field_error :: "string \<Rightarrow> string \<Rightarrow> error" where
  "hex_field_error name s =
     (if s = [] then New (name @ '' missing'')
      else
        (case DecodeString (TrimPrefix s ''0x'') of
           Inl err \<Rightarrow> Wrap err (''invalid value for '' @ name)
         | Inr bs \<Rightarrow> New (''incorrect length for '' @ name)))"

definition seq_field_error :: "string \<Rightarrow> 'a option list option \<Rightarrow> error" where
  "seq_field_error name xs =
     (case xs of
        None \<Rightarrow> New (name @ '' missing'')
      | Some ys \<Rightarrow> Errorf (name @ '' entry %d missing'') (first_index (\<lambda>x. x = None) ys))"

definition commitment_error :: "string \<Rightarrow> error" where
  "commitment_error c =
     (case DecodeString (TrimPrefix c ''0x'') of
        Inl err \<Rightarrow> Wrap err ''failed to parse blob KZG commitment''
      | Inr bs \<Rightarrow> New ''incorrect length for blob KZG commitment'')"

definition first_bad_commitment :: "string list \<Rightarrow> nat" where
  "first_bad_commitment cs = first_index (\<lambda>c. \<not> valid_hex KZGCommitmentLength c) cs"

definition commitments_error :: "string list option \<Rightarrow> error" where
  "commitments_error cs =
     (case cs of
        None \<Rightarrow> New ''blob KZG commitments missing''
      | Some ys \<Rightarrow>
          if list_all (\<lambda>c. c \<noteq> []) ys then commitment_error (ys ! first_bad_commitment ys)
          else Errorf ''blob KZG commitments entry %d missing'' (first_index (\<lambda>c. c = []) ys))"

fun field_error ::
  "field
     \<Rightarrow> ('eth1, 'psl, 'asl, 'att, 'dep, 'vex, 'syn, 'eph, 'bls, 'exr) blindedBeaconBlockBodyJSON
     \<Rightarrow> error"
where
  "field_error f_randao_reveal d = hex_field_error ''RANDAO reveal'' (json_RANDAOReveal d)"
| "field_error f_eth1_data d = New ''ETH1 data missing''"
| "field_error f_graffiti d = hex_field_error ''graffiti'' (json_Graffiti d)"
| "field_error f_proposer_slashings d =
     seq_field_error ''proposer slashings'' (json_ProposerSlashings d)"
| "field_error f_attester_slashings d =
     seq_field_error ''attester slashings'' (json_AttesterSlashings d)"
| "field_error f_attestations d = seq_field_error ''attestations'' (json_Attestations d)"
| "field_error f_deposits d = seq_field_error ''deposits'' (json_Deposits d)"
| "field_error f_voluntary_exits d = seq_field_error ''voluntary exits'' (json_VoluntaryExits d)"
| "field_error f_sync_aggregate d = New ''sync aggregate missing''"
| "field_error f_execution_payload_header d = New ''execution payload header missing''"
| "field_error f_bls_to_execution_changes d =
     seq_field_error ''bls to execution changes'' (json_BLSToExecutionChanges d)"
| "field_error f_blob_kzg_commitments d = commitments_error (json_BlobKZGCommitments d)"
| "field_error f_execution_requests d = New ''execution requests missing''"

definition partial_commitments :: "string list \<Rightarrow> byte list list" where
  "partial_commitments cs =
     map hex_bytes (take (first_bad_commitment cs) cs) @
     replicate (length cs - first_bad_commitment cs) (replicate KZGCommitmentLength 0)"

definition failed_write ::
  "('eth1, 'psl, 'asl, 'att, 'dep, 'vex, 'syn, 'eph, 'bls, 'exr) blindedBeaconBlockBodyJSON
     \<Rightarrow> field
     \<Rightarrow> ('eth1, 'psl, 'asl, 'att, 'dep, 'vex, 'syn, 'eph, 'bls, 'exr) BlindedBeaconBlockBody
     \<Rightarrow> ('eth1, 'psl, 'asl, 'att, 'dep, 'vex, 'syn, 'eph, 'bls, 'exr) BlindedBeaconBlockBody"
where
  "failed_write d f b =
     (if f = f_blob_kzg_commitments then
        (case json_BlobKZGCommitments d of
           None \<Rightarrow> b
         | Some cs \<Rightarrow>
             if list_all (\<lambda>c. c \<noteq> []) cs
             then b\<lparr>BlobKZGCommitments := Some (partial_commitments cs)\<rparr>
             else b)
      else b)"

subsection \<open>Missing fields\<close>

text \<open>
  Whether a mandatory field is absent from the document (a string that is empty, a pointer
  or a slice that is \<^verbatim>\<open>nil\<close>: what \<^verbatim>\<open>json.Unmarshal\<close> leaves for a key that is not
  there); \<^verbatim>\<open>bls_to_execution_changes\<close> is optional, so its absence does not count. And
  the name of a field in the messages of \<^verbatim>\<open>unpack\<close>.
\<close>

fun field_absent ::
  "field
     \<Rightarrow> ('eth1, 'psl, 'asl, 'att, 'dep, 'vex, 'syn, 'eph, 'bls, 'exr) blindedBeaconBlockBodyJSON
     \<Rightarrow> bool"
where
  "field_absent f_randao_reveal d = (json_RANDAOReveal d = [])"
| "field_absent f_eth1_data d = (json_ETH1Data d = None)"
| "field_absent f_graffiti d = (json_Graffiti d = [])"
| "field_absent f_proposer_slashings d = (json_ProposerSlashings d = None)"
| "field_absent f_attester_slashings d = (json_AttesterSlashings d = None)"
| "field_absent f_attestations d = (json_Attestations d = None)"
| "field_absent f_deposits d = (json_Deposits d = None)"
| "field_absent f_voluntary_exits d = (json_VoluntaryExits d = None)"
| "field_absent f_sync_aggregate d = (json_SyncAggregate d = None)"
| "field_absent f_execution_payload_header d = (json_ExecutionPayloadHeader d = None)"
| "field_absent f_bls_to_execution_changes d = False"
| "field_absent f_blob_kzg_commitments d = (json_BlobKZGCommitments d = None)"
| "field_absent f_execution_requests d = (json_ExecutionRequests d = None)"

fun field_name :: "field \<Rightarrow> string" where
  "field_name f_randao_reveal = ''RANDAO reveal''"
| "field_name f_eth1_data = ''ETH1 data''"
| "field_name f_graffiti = ''graffiti''"
| "field_name f_proposer_slashings = ''proposer slashings''"
| "field_name f_attester_slashings = ''attester slashings''"
| "field_name f_attestations = ''attestations''"
| "field_name f_deposits = ''deposits''"
| "field_name f_voluntary_exits = ''voluntary exits''"
| "field_name f_sync_aggregate = ''sync aggregate''"
| "field_name f_execution_payload_header = ''execution payload header''"
| "field_name f_bls_to_execution_changes = ''bls to execution changes''"
| "field_name f_blob_kzg_commitments = ''blob KZG commitments''"
| "field_name f_execution_requests = ''execution requests''"

subsection \<open>Example documents and objects\<close>

text \<open>
  A valid signed block and a valid blinded block body, as \<^verbatim>\<open>json.Unmarshal\<close> hands them
  to \<^verbatim>\<open>unpack\<close>, with natural numbers for the nested objects; and the zero values of
  the two Go types.
\<close>

type_synonym example_body_json =
  "(nat, nat, nat, nat, nat, nat, nat, nat, nat, nat) blindedBeaconBlockBodyJSON"

type_synonym example_body =
  "(nat, nat, nat, nat, nat, nat, nat, nat, nat, nat) BlindedBeaconBlockBody"

definition example_block_json :: "nat signedBeaconBlockJSON" where
  "example_block_json =
     \<lparr>json_Message = Some 7, json_Signature = ''0x'' @ concat (replicate 96 ''ab'')\<rparr>"

definition zero_block :: "nat SignedBeaconBlock" where
  "zero_block = \<lparr>Message = None, Signature = replicate 96 0\<rparr>"

definition example_body_json :: example_body_json where
  "example_body_json =
     \<lparr>json_RANDAOReveal = ''0x'' @ concat (replicate 96 ''01''),
      json_ETH1Data = Some 1,
      json_Graffiti = ''0x'' @ concat (replicate 32 ''02''),
      json_ProposerSlashings = Some [Some 1],
      json_AttesterSlashings = Some [],
      json_Attestations = Some [Some 1, Some 2],
      json_Deposits = Some [Some 1],
      json_VoluntaryExits = Some [],
      json_SyncAggregate = Some 1,
      json_ExecutionPayloadHeader = Some 1,
      json_BLSToExecutionChanges = Some [Some 1],
      json_BlobKZGCommitments = Some [''0x'' @ concat (replicate 48 ''03'')],
      json_ExecutionRequests = Some 1\<rparr>"

definition zero_body :: example_body where
  "zero_body =
     \<lparr>RANDAOReveal = replicate 96 0,
      ETH1Data = None,
      Graffiti = replicate 32 0,
      ProposerSlashings = None,
      AttesterSlashings = None,
      Attestations = None,
      Deposits = None,
      VoluntaryExits = None,
      SyncAggregate = None,
      ExecutionPayloadHeader = None,
      BLSToExecutionChanges = None,
      BlobKZGCommitments = None,
      ExecutionRequests = None\<rparr>"

subsection \<open>Well-formed objects\<close>

text \<open>
  An object whose mandatory fields are populated: no \<^verbatim>\<open>nil\<close> pointer, no \<^verbatim>\<open>nil\<close>
  slice and no \<^verbatim>\<open>nil\<close> element in a mandatory field; \<^verbatim>\<open>BLSToExecutionChanges\<close> is the
  optional field and may be \<^verbatim>\<open>nil\<close>, but holds no \<^verbatim>\<open>nil\<close> element.
\<close>

definition populated ::
  "('eth1, 'psl, 'asl, 'att, 'dep, 'vex, 'syn, 'eph, 'bls, 'exr) BlindedBeaconBlockBody \<Rightarrow> bool"
where
  "populated b \<longleftrightarrow>
     ETH1Data b \<noteq> None \<and>
     valid_seq (ProposerSlashings b) \<and>
     valid_seq (AttesterSlashings b) \<and>
     valid_seq (Attestations b) \<and>
     valid_seq (Deposits b) \<and>
     valid_seq (VoluntaryExits b) \<and>
     SyncAggregate b \<noteq> None \<and>
     ExecutionPayloadHeader b \<noteq> None \<and>
     (case BLSToExecutionChanges b of
        None \<Rightarrow> True
      | Some xs \<Rightarrow> list_all (\<lambda>x. x \<noteq> None) xs) \<and>
     BlobKZGCommitments b \<noteq> None \<and>
     ExecutionRequests b \<noteq> None"

text \<open>
  Two populated objects: one with a \<^verbatim>\<open>nil\<close> \<^verbatim>\<open>BLSToExecutionChanges\<close>, one with a
  change in it.
\<close>

definition example_body_nil :: example_body where
  "example_body_nil =
     \<lparr>RANDAOReveal = replicate 96 1,
      ETH1Data = Some 1,
      Graffiti = replicate 32 2,
      ProposerSlashings = Some [Some 1],
      AttesterSlashings = Some [],
      Attestations = Some [Some 1, Some 2],
      Deposits = Some [Some 1],
      VoluntaryExits = Some [],
      SyncAggregate = Some 1,
      ExecutionPayloadHeader = Some 1,
      BLSToExecutionChanges = None,
      BlobKZGCommitments = Some [replicate 48 3],
      ExecutionRequests = Some 1\<rparr>"

definition example_body_bls :: example_body where
  "example_body_bls = example_body_nil\<lparr>BLSToExecutionChanges := Some [Some 1]\<rparr>"

definition example_block :: "nat SignedBeaconBlock" where
  "example_block = \<lparr>Message = Some 7, Signature = replicate 96 0xab\<rparr>"

text \<open>
  The JSON library is a parameter of the codecs. In the examples a library that writes one
  fixed text for the value \<open>w\<close>, and reads that text back as \<open>w\<close>, stands for
  \<^verbatim>\<open>json.Marshal\<close> and \<^verbatim>\<open>json.Unmarshal\<close> at that value.
\<close>

definition stub_Marshal :: "'w \<Rightarrow> error + string" where
  "stub_Marshal w = Inr ''<json>''"

definition stub_Unmarshal :: "'w \<Rightarrow> string \<Rightarrow> error + 'w" where
  "stub_Unmarshal w input =
     (if input = ''<json>'' then Inr w else Inl (LibError ''invalid character''))"

subsection \<open>YAML unmarshalling, in the words of the specification\<close>









section \<open>Lemmas\<close>

subsection \<open>Hex strings\<close>

lemma nibble_join: "push_bit 4 (drop_bit 4 v) OR (v AND 0x0f) = (v::byte)"
proof -
  have "(v AND 0x0f) = take_bit 4 v"
    using take_bit_eq_mask [of 4 v] by (simp add: mask_eq_exp_minus_1)
  moreover have "take_bit 4 v OR push_bit 4 (drop_bit 4 v) = v"
  proof (rule bit_word_eqI)
    fix n
    assume "n < LENGTH(8)"
    then show "bit (take_bit 4 v OR push_bit 4 (drop_bit 4 v)) n = bit v n"
      by (cases "n < 4") (simp_all add: bit_simps)
  qed
  ultimately show ?thesis
    by (simp add: or.commute)
qed

lemma unat_nibble_hi: "unat (drop_bit 4 (v::byte)) < 16"
proof -
  have "unat v < 256" using unsigned_less [of v] by simp
  then show ?thesis
    by (simp add: unat_drop_bit_eq drop_bit_eq_div unat_div)
qed

lemma unat_nibble_lo: "unat ((v::byte) AND 0x0f) < 16"
proof -
  have "unat (v AND 0x0f) \<le> unat (0x0f :: byte)"
    by (rule word_and_le1 [THEN word_le_nat_alt [THEN iffD1]])
  then show ?thesis by simp
qed

lemma fromHexChar_hextable: "n < 16 \<Longrightarrow> fromHexChar (hextable ! n) = Some (of_nat n)"
proof -
  have "\<forall>n\<in>set [0..<16]. fromHexChar (hextable ! n) = Some (of_nat n)"
    by code_simp
  then show "n < 16 \<Longrightarrow> fromHexChar (hextable ! n) = Some (of_nat n)"
    by simp
qed

lemma Decode_hexbyte:
  "Decode (hexbyte v @ s) = (case Decode s of Inl e \<Rightarrow> Inl e | Inr bs \<Rightarrow> Inr (v # bs))"
  by (simp add: hexbyte_def fromHexChar_hextable unat_nibble_hi unat_nibble_lo nibble_join
           split: sum.split)

lemma Decode_encode: "Decode (concat (map hexbyte bs)) = Inr bs"
  by (induction bs) (simp_all add: Decode_hexbyte)

lemma TrimPrefix_0x: "TrimPrefix (CHR ''0'' # CHR ''x'' # h) ''0x'' = h"
  by (simp add: TrimPrefix_def)

lemma DecodeString_Sprintf:
  "bs \<noteq> [] \<Longrightarrow> DecodeString (TrimPrefix (Sprintf_sharp_x bs) ''0x'') = Inr bs"
  by (simp add: Sprintf_sharp_x_def DecodeString_def TrimPrefix_0x Decode_encode)

lemma DecodeString_KZGCommitment_String:
  "DecodeString (TrimPrefix (KZGCommitment_String c) ''0x'') = Inr c"
  by (simp add: KZGCommitment_String_def DecodeString_def TrimPrefix_0x Decode_encode)

lemma copy_same_length: "length dst = length src \<Longrightarrow> copy dst src = src"
  by (simp add: copy_def)

subsection \<open>The statements of a field, one at a time\<close>

lemma range_check_eq:
  "range_check P msg xs i =
     (if list_all (\<lambda>x. \<not> P x) xs then None else Some (Errorf msg (i + first_index P xs)))"
  by (induction xs arbitrary: i) (simp_all add: first_index_def)

lemma first_index_less: "\<not> list_all (\<lambda>x. \<not> P x) xs \<Longrightarrow> first_index P xs < length xs"
  by (induction xs) (auto simp add: first_index_def)

lemma first_index_holds: "\<not> list_all (\<lambda>x. \<not> P x) xs \<Longrightarrow> P (xs ! first_index P xs)"
  by (induction xs) (auto simp add: first_index_def)

lemma first_index_least: "j < first_index P xs \<Longrightarrow> \<not> P (xs ! j)"
  unfolding first_index_def
  by (metis (mono_tags, lifting) nth_length_takeWhile nth_mem set_takeWhileD takeWhile_nth)

lemma unpack_RANDAOReveal_ok:
  "valid_hex SignatureLength (json_RANDAOReveal data) \<Longrightarrow>
   length (RANDAOReveal b) = SignatureLength \<Longrightarrow>
   unpack_RANDAOReveal data b = (None, write_field data f_randao_reveal b)"
  by (auto simp add: unpack_RANDAOReveal_def valid_hex_def hex_bytes_def copy_same_length
           split: sum.splits)

lemma unpack_Graffiti_ok:
  "valid_hex GraffitiLength (json_Graffiti data) \<Longrightarrow>
   length (Graffiti b) = GraffitiLength \<Longrightarrow>
   unpack_Graffiti data b = (None, write_field data f_graffiti b)"
  by (auto simp add: unpack_Graffiti_def valid_hex_def hex_bytes_def copy_same_length
           split: sum.splits)

lemma unpack_ETH1Data_ok:
  "json_ETH1Data data \<noteq> None \<Longrightarrow> unpack_ETH1Data data b = (None, write_field data f_eth1_data b)"
  by (simp add: unpack_ETH1Data_def)

lemma unpack_ETH1Data_fail:
  "json_ETH1Data data = None \<Longrightarrow> unpack_ETH1Data data b = (Some (New ''ETH1 data missing''), b)"
  by (simp add: unpack_ETH1Data_def)

lemma unpack_SyncAggregate_ok:
  "json_SyncAggregate data \<noteq> None \<Longrightarrow> unpack_SyncAggregate data b = (None, write_field data f_sync_aggregate b)"
  by (simp add: unpack_SyncAggregate_def)

lemma unpack_SyncAggregate_fail:
  "json_SyncAggregate data = None \<Longrightarrow> unpack_SyncAggregate data b = (Some (New ''sync aggregate missing''), b)"
  by (simp add: unpack_SyncAggregate_def)

lemma unpack_ExecutionPayloadHeader_ok:
  "json_ExecutionPayloadHeader data \<noteq> None \<Longrightarrow> unpack_ExecutionPayloadHeader data b = (None, write_field data f_execution_payload_header b)"
  by (simp add: unpack_ExecutionPayloadHeader_def)

lemma unpack_ExecutionPayloadHeader_fail:
  "json_ExecutionPayloadHeader data = None \<Longrightarrow> unpack_ExecutionPayloadHeader data b = (Some (New ''execution payload header missing''), b)"
  by (simp add: unpack_ExecutionPayloadHeader_def)

lemma unpack_ExecutionRequests_ok:
  "json_ExecutionRequests data \<noteq> None \<Longrightarrow> unpack_ExecutionRequests data b = (None, write_field data f_execution_requests b)"
  by (simp add: unpack_ExecutionRequests_def)

lemma unpack_ExecutionRequests_fail:
  "json_ExecutionRequests data = None \<Longrightarrow> unpack_ExecutionRequests data b = (Some (New ''execution requests missing''), b)"
  by (simp add: unpack_ExecutionRequests_def)

lemma unpack_ProposerSlashings_ok:
  "valid_seq (json_ProposerSlashings data) \<Longrightarrow> unpack_ProposerSlashings data b = (None, write_field data f_proposer_slashings b)"
  by (cases "json_ProposerSlashings data")
     (simp_all add: unpack_ProposerSlashings_def valid_seq_def range_check_eq del: not_None_eq)

lemma unpack_AttesterSlashings_ok:
  "valid_seq (json_AttesterSlashings data) \<Longrightarrow> unpack_AttesterSlashings data b = (None, write_field data f_attester_slashings b)"
  by (cases "json_AttesterSlashings data")
     (simp_all add: unpack_AttesterSlashings_def valid_seq_def range_check_eq del: not_None_eq)

lemma unpack_Attestations_ok:
  "valid_seq (json_Attestations data) \<Longrightarrow> unpack_Attestations data b = (None, write_field data f_attestations b)"
  by (cases "json_Attestations data")
     (simp_all add: unpack_Attestations_def valid_seq_def range_check_eq del: not_None_eq)

lemma unpack_Deposits_ok:
  "valid_seq (json_Deposits data) \<Longrightarrow> unpack_Deposits data b = (None, write_field data f_deposits b)"
  by (cases "json_Deposits data")
     (simp_all add: unpack_Deposits_def valid_seq_def range_check_eq del: not_None_eq)

lemma unpack_VoluntaryExits_ok:
  "valid_seq (json_VoluntaryExits data) \<Longrightarrow> unpack_VoluntaryExits data b = (None, write_field data f_voluntary_exits b)"
  by (cases "json_VoluntaryExits data")
     (simp_all add: unpack_VoluntaryExits_def valid_seq_def range_check_eq del: not_None_eq)

lemma unpack_BLSToExecutionChanges_ok:
  "field_valid f_bls_to_execution_changes data \<Longrightarrow>
   unpack_BLSToExecutionChanges data b = (None, write_field data f_bls_to_execution_changes b)"
  by (cases "json_BLSToExecutionChanges data")
     (simp_all add: unpack_BLSToExecutionChanges_def range_check_eq del: not_None_eq)

subsection \<open>The error and the state of a failed field\<close>

lemma unpack_RANDAOReveal_error:
  "\<not> valid_hex SignatureLength (json_RANDAOReveal data) \<Longrightarrow>
   unpack_RANDAOReveal data b = (Some (field_error f_randao_reveal data), b)"
  by (auto simp add: unpack_RANDAOReveal_def valid_hex_def hex_field_error_def split: sum.splits)

lemma unpack_Graffiti_error:
  "\<not> valid_hex GraffitiLength (json_Graffiti data) \<Longrightarrow>
   unpack_Graffiti data b = (Some (field_error f_graffiti data), b)"
  by (auto simp add: unpack_Graffiti_def valid_hex_def hex_field_error_def split: sum.splits)

lemma unpack_ProposerSlashings_error:
  "\<not> valid_seq (json_ProposerSlashings data) \<Longrightarrow> unpack_ProposerSlashings data b = (Some (field_error f_proposer_slashings data), b)"
  by (cases "json_ProposerSlashings data")
     (simp_all add: unpack_ProposerSlashings_def valid_seq_def seq_field_error_def range_check_eq
               del: not_None_eq)

lemma unpack_AttesterSlashings_error:
  "\<not> valid_seq (json_AttesterSlashings data) \<Longrightarrow> unpack_AttesterSlashings data b = (Some (field_error f_attester_slashings data), b)"
  by (cases "json_AttesterSlashings data")
     (simp_all add: unpack_AttesterSlashings_def valid_seq_def seq_field_error_def range_check_eq
               del: not_None_eq)

lemma unpack_Attestations_error:
  "\<not> valid_seq (json_Attestations data) \<Longrightarrow> unpack_Attestations data b = (Some (field_error f_attestations data), b)"
  by (cases "json_Attestations data")
     (simp_all add: unpack_Attestations_def valid_seq_def seq_field_error_def range_check_eq
               del: not_None_eq)

lemma unpack_Deposits_error:
  "\<not> valid_seq (json_Deposits data) \<Longrightarrow> unpack_Deposits data b = (Some (field_error f_deposits data), b)"
  by (cases "json_Deposits data")
     (simp_all add: unpack_Deposits_def valid_seq_def seq_field_error_def range_check_eq
               del: not_None_eq)

lemma unpack_VoluntaryExits_error:
  "\<not> valid_seq (json_VoluntaryExits data) \<Longrightarrow> unpack_VoluntaryExits data b = (Some (field_error f_voluntary_exits data), b)"
  by (cases "json_VoluntaryExits data")
     (simp_all add: unpack_VoluntaryExits_def valid_seq_def seq_field_error_def range_check_eq
               del: not_None_eq)

lemma unpack_BLSToExecutionChanges_error:
  "\<not> field_valid f_bls_to_execution_changes data \<Longrightarrow>
   unpack_BLSToExecutionChanges data b = (Some (field_error f_bls_to_execution_changes data), b)"
  by (cases "json_BLSToExecutionChanges data")
     (simp_all add: unpack_BLSToExecutionChanges_def seq_field_error_def range_check_eq
               del: not_None_eq)

lemma valid_hex_commitment:
  "valid_hex KZGCommitmentLength c \<longleftrightarrow>
     (case DecodeString (TrimPrefix c ''0x'') of
        Inl err \<Rightarrow> False
      | Inr bs \<Rightarrow> length bs = KZGCommitmentLength)"
proof (cases "c = []")
  case True
  then show ?thesis
    by (simp add: valid_hex_def TrimPrefix_def DecodeString_def KZGCommitmentLength_def)
next
  case False
  then show ?thesis
    by (simp add: valid_hex_def)
qed

lemma decode_commitments_eq:
  "decode_commitments cs
     (acc @ replicate (length cs) (replicate KZGCommitmentLength 0)) (length acc) =
   (if list_all (valid_hex KZGCommitmentLength) cs then None
    else Some (commitment_error (cs ! first_bad_commitment cs)),
    acc @ partial_commitments cs)"
proof (induction cs arbitrary: acc)
  case Nil
  then show ?case
    by (simp add: partial_commitments_def first_bad_commitment_def first_index_def)
next
  case (Cons c cs)
  show ?case
  proof (cases "valid_hex KZGCommitmentLength c")
    case False
    then show ?thesis
      by (auto simp add: valid_hex_commitment commitment_error_def partial_commitments_def
            first_bad_commitment_def first_index_def split: sum.splits)
  next
    case True
    then obtain bs where bs: "DecodeString (TrimPrefix c ''0x'') = Inr bs"
      "length bs = KZGCommitmentLength"
      by (auto simp add: valid_hex_commitment split: sum.splits)
    let ?z = "replicate KZGCommitmentLength (0::byte)"
    let ?out = "acc @ replicate (length (c # cs)) ?z"
    have nth: "?out ! length acc = ?z"
      by (simp add: nth_append)
    have cp: "copy ?z bs = bs"
      by (simp add: copy_same_length bs)
    have upd: "?out[length acc := bs] = (acc @ [bs]) @ replicate (length cs) ?z"
      by (simp add: list_update_append)
    have len: "Suc (length acc) = length (acc @ [bs])"
      by simp
    have "decode_commitments (c # cs) ?out (length acc) =
          decode_commitments cs (?out[length acc := copy (?out ! length acc) bs])
            (Suc (length acc))"
      using bs by simp
    also have "\<dots> =
          decode_commitments cs ((acc @ [bs]) @ replicate (length cs) ?z) (length (acc @ [bs]))"
      by (simp only: nth cp upd len)
    also have "\<dots> =
        (if list_all (valid_hex KZGCommitmentLength) cs then None
         else Some (commitment_error (cs ! first_bad_commitment cs)),
         (acc @ [bs]) @ partial_commitments cs)"
      by (rule Cons.IH)
    finally show ?thesis
      using True bs
      by (simp add: partial_commitments_def first_bad_commitment_def first_index_def hex_bytes_def)
  qed
qed

lemma decode_commitments_start:
  "decode_commitments cs (replicate (length cs) (replicate KZGCommitmentLength 0)) 0 =
   (if list_all (valid_hex KZGCommitmentLength) cs then None
    else Some (commitment_error (cs ! first_bad_commitment cs)),
    partial_commitments cs)"
  using decode_commitments_eq [of cs "[]"] by simp

lemma first_index_all: "list_all P xs \<Longrightarrow> first_index (\<lambda>x. \<not> P x) xs = length xs"
  by (induction xs) (simp_all add: first_index_def)

lemma partial_commitments_all:
  "list_all (valid_hex KZGCommitmentLength) cs \<Longrightarrow> partial_commitments cs = map hex_bytes cs"
  by (simp add: partial_commitments_def first_bad_commitment_def first_index_all)

lemma valid_hex_nonempty: "list_all (valid_hex n) cs \<Longrightarrow> list_all (\<lambda>c. c \<noteq> []) cs"
  by (induction cs) (simp_all add: valid_hex_def)

lemma unpack_BlobKZGCommitments_ok:
  "field_valid f_blob_kzg_commitments data \<Longrightarrow>
   unpack_BlobKZGCommitments data b = (None, write_field data f_blob_kzg_commitments b)"
proof (cases "json_BlobKZGCommitments data")
  case None
  assume "field_valid f_blob_kzg_commitments data"
  with None show ?thesis by simp
next
  case (Some cs)
  assume "field_valid f_blob_kzg_commitments data"
  with Some have v: "list_all (valid_hex KZGCommitmentLength) cs" by simp
  then have "list_all (\<lambda>c. c \<noteq> []) cs" by (rule valid_hex_nonempty)
  with Some v show ?thesis
    by (simp add: unpack_BlobKZGCommitments_def range_check_eq decode_commitments_start
          partial_commitments_all)
qed

lemma unpack_BlobKZGCommitments_error:
  "\<not> field_valid f_blob_kzg_commitments data \<Longrightarrow>
   unpack_BlobKZGCommitments data b =
     (Some (field_error f_blob_kzg_commitments data), failed_write data f_blob_kzg_commitments b)"
proof (cases "json_BlobKZGCommitments data")
  case None
  then show ?thesis
    by (simp add: unpack_BlobKZGCommitments_def commitments_error_def failed_write_def)
next
  case (Some cs)
  assume "\<not> field_valid f_blob_kzg_commitments data"
  with Some have v: "\<not> list_all (valid_hex KZGCommitmentLength) cs" by simp
  show ?thesis
  proof (cases "list_all (\<lambda>c. c \<noteq> []) cs")
    case True
    with Some v show ?thesis
      by (simp add: unpack_BlobKZGCommitments_def range_check_eq decode_commitments_start
            commitments_error_def failed_write_def)
  next
    case False
    with Some show ?thesis
      by (simp add: unpack_BlobKZGCommitments_def range_check_eq commitments_error_def
            failed_write_def)
  qed
qed

subsection \<open>The whole of unpack\<close>

lemma find_Some_before:
  "find P xs = Some f \<Longrightarrow> list_all (\<lambda>g. \<not> P g) (takeWhile (\<lambda>g. g \<noteq> f) xs) \<and> P f"
  by (induction xs) (auto split: if_splits)

lemma find_Some_first:
  "f \<in> set xs \<Longrightarrow> list_all (\<lambda>g. \<not> P g) (takeWhile (\<lambda>g. g \<noteq> f) xs) \<Longrightarrow> P f \<Longrightarrow>
   find P xs = Some f"
  by (induction xs) (auto split: if_splits)

lemma field_in_all_fields: "f \<in> set all_fields"
  by (cases f) (simp_all add: all_fields_def)

lemma first_invalid_SomeD:
  "first_invalid d = Some f \<Longrightarrow> checks_before f d \<and> \<not> field_valid f d"
  unfolding first_invalid_def checks_before_def fields_before_def
  by (drule find_Some_before) simp

lemma first_invalid_SomeI:
  "checks_before f d \<Longrightarrow> \<not> field_valid f d \<Longrightarrow> first_invalid d = Some f"
  unfolding first_invalid_def checks_before_def fields_before_def
  by (rule find_Some_first) (simp_all add: field_in_all_fields)

lemma first_invalid_None: "first_invalid d = None \<longleftrightarrow> valid_body d"
  by (auto simp add: first_invalid_def valid_body_def find_None_iff list_all_iff)

lemmas unpack_field_ok =
  unpack_RANDAOReveal_ok unpack_ETH1Data_ok unpack_Graffiti_ok unpack_ProposerSlashings_ok
  unpack_AttesterSlashings_ok unpack_Attestations_ok unpack_Deposits_ok unpack_VoluntaryExits_ok
  unpack_SyncAggregate_ok unpack_ExecutionPayloadHeader_ok unpack_BLSToExecutionChanges_ok
  unpack_BlobKZGCommitments_ok unpack_ExecutionRequests_ok

lemmas unpack_field_error =
  unpack_RANDAOReveal_error unpack_ETH1Data_fail unpack_Graffiti_error
  unpack_ProposerSlashings_error unpack_AttesterSlashings_error unpack_Attestations_error
  unpack_Deposits_error unpack_VoluntaryExits_error unpack_SyncAggregate_fail
  unpack_ExecutionPayloadHeader_fail unpack_BLSToExecutionChanges_error
  unpack_BlobKZGCommitments_error unpack_ExecutionRequests_fail

lemma unpack_valid:
  assumes "valid_body data" and "array_lengths b"
  shows "BlindedBeaconBlockBody_unpack data b = (None, fold (write_field data) all_fields b)"
  using assms
  by (simp add: valid_body_def all_fields_def array_lengths_def BlindedBeaconBlockBody_unpack_def
        andThen_def unpack_field_ok del: field_valid.simps(11,12))

lemma unpack_invalid:
  assumes "first_invalid data = Some f" and "array_lengths b"
  shows "BlindedBeaconBlockBody_unpack data b =
           (Some (field_error f data),
            failed_write data f (fold (write_field data) (fields_before f) b))"
proof -
  from assms(1) have "checks_before f data" and "\<not> field_valid f data"
    by (simp_all add: first_invalid_SomeD)
  with assms(2) show ?thesis
    by (cases f)
       (simp_all add: checks_before_def fields_before_def all_fields_def array_lengths_def
          BlindedBeaconBlockBody_unpack_def andThen_def unpack_field_ok unpack_field_error
          failed_write_def del: field_valid.simps(11,12))
qed

lemma unpack_error_at:
  "checks_before f d \<Longrightarrow> \<not> field_valid f d \<Longrightarrow> array_lengths b \<Longrightarrow>
   fst (BlindedBeaconBlockBody_unpack d b) = Some (field_error f d)"
  by (simp add: first_invalid_SomeI unpack_invalid)

lemma unpack_fails:
  assumes "\<not> field_valid f d" and "array_lengths b"
  shows "fst (BlindedBeaconBlockBody_unpack d b) \<noteq> None"
proof -
  from assms(1) have "\<not> valid_body d"
    using field_in_all_fields [of f] by (auto simp add: valid_body_def list_all_iff)
  then obtain g where "first_invalid d = Some g"
    by (auto simp add: first_invalid_None [symmetric])
  with assms(2) show ?thesis
    by (simp add: unpack_invalid)
qed

lemma unpack_succeeds_iff:
  assumes "array_lengths b"
  shows "fst (BlindedBeaconBlockBody_unpack d b) = None \<longleftrightarrow> valid_body d"
proof
  assume ok: "fst (BlindedBeaconBlockBody_unpack d b) = None"
  show "valid_body d"
  proof (rule ccontr)
    assume "\<not> valid_body d"
    then obtain f where "\<not> field_valid f d"
      by (auto simp add: valid_body_def list_all_iff)
    from unpack_fails [OF this assms] ok show False
      by simp
  qed
next
  assume "valid_body d"
  then show "fst (BlindedBeaconBlockBody_unpack d b) = None"
    using assms by (simp add: unpack_valid)
qed

lemma field_absent_invalid: "field_absent f d \<Longrightarrow> \<not> field_valid f d"
  by (cases f) (simp_all add: valid_hex_def valid_seq_def)

lemma field_absent_error: "field_absent f d \<Longrightarrow> field_error f d = New (field_name f @ '' missing'')"
  by (cases f) (simp_all add: hex_field_error_def seq_field_error_def commitments_error_def)

lemma unpack_RANDAOReveal_first:
  "\<not> valid_hex SignatureLength (json_RANDAOReveal d) \<Longrightarrow>
   BlindedBeaconBlockBody_unpack d b = (Some (field_error f_randao_reveal d), b)"
  by (simp add: BlindedBeaconBlockBody_unpack_def andThen_def unpack_RANDAOReveal_error
        del: field_error.simps)

lemma ReplaceAll_single: "ReplaceAll s [c] [d] = map (\<lambda>x. if x = c then d else x) s"
proof (induction s)
  case Nil
  show ?case by (simp add: ReplaceAll.simps)
next
  case (Cons a s)
  then show ?case by (subst ReplaceAll.simps) simp
qed

subsection \<open>Marshalling\<close>

lemma valid_hex_Sprintf: "bs \<noteq> [] \<Longrightarrow> valid_hex (length bs) (Sprintf_sharp_x bs)"
  by (simp add: valid_hex_def DecodeString_Sprintf) (simp add: Sprintf_sharp_x_def)

lemma hex_bytes_Sprintf: "bs \<noteq> [] \<Longrightarrow> hex_bytes (Sprintf_sharp_x bs) = bs"
  by (simp add: hex_bytes_def DecodeString_Sprintf)

lemma valid_hex_KZGCommitment_String: "valid_hex (length c) (KZGCommitment_String c)"
  by (simp add: valid_hex_def DecodeString_KZGCommitment_String)
     (simp add: KZGCommitment_String_def)

lemma hex_bytes_KZGCommitment_String: "hex_bytes (KZGCommitment_String c) = c"
  by (simp add: hex_bytes_def DecodeString_KZGCommitment_String)

lemma marshalled_body_valid:
  assumes "populated obj" and "array_lengths obj"
  shows "valid_body (blindedBeaconBlockBodyJSON_of obj)"
proof -
  from assms(2) have r: "RANDAOReveal obj \<noteq> []" "length (RANDAOReveal obj) = SignatureLength"
    and g: "Graffiti obj \<noteq> []" "length (Graffiti obj) = GraffitiLength"
    by (auto simp add: array_lengths_def SignatureLength_def GraffitiLength_def)
  from assms obtain cs where cs: "BlobKZGCommitments obj = Some cs"
    "list_all (\<lambda>c. length c = KZGCommitmentLength) cs"
    by (auto simp add: populated_def array_lengths_def)
  have "list_all (valid_hex KZGCommitmentLength) (map KZGCommitment_String cs)"
  proof -
    have "valid_hex KZGCommitmentLength (KZGCommitment_String c)"
      if "length c = KZGCommitmentLength" for c
      using valid_hex_KZGCommitment_String [of c] that by simp
    with cs(2) show ?thesis
      by (auto simp add: list_all_iff)
  qed
  with assms(1) cs(1) valid_hex_Sprintf [OF r(1)] valid_hex_Sprintf [OF g(1)] r(2) g(2)
  show ?thesis
    by (simp add: valid_body_def all_fields_def blindedBeaconBlockBodyJSON_of_def populated_def)
qed

lemma marshalled_body_unpack:
  assumes "populated obj" and "array_lengths obj" and "array_lengths b"
  shows "BlindedBeaconBlockBody_unpack (blindedBeaconBlockBodyJSON_of obj) b =
           (None, obj\<lparr>BLSToExecutionChanges :=
                        Some (case BLSToExecutionChanges obj of None \<Rightarrow> [] | Some xs \<Rightarrow> xs)\<rparr>)"
proof -
  from assms(2) have r: "RANDAOReveal obj \<noteq> []" and g: "Graffiti obj \<noteq> []"
    by (auto simp add: array_lengths_def SignatureLength_def GraffitiLength_def)
  from assms obtain cs where cs: "BlobKZGCommitments obj = Some cs"
    by (auto simp add: populated_def)
  have m: "map (hex_bytes \<circ> KZGCommitment_String) cs = cs"
    by (simp add: hex_bytes_KZGCommitment_String comp_def)
  have "fold (write_field (blindedBeaconBlockBodyJSON_of obj)) all_fields b =
          obj\<lparr>BLSToExecutionChanges :=
                Some (case BLSToExecutionChanges obj of None \<Rightarrow> [] | Some xs \<Rightarrow> xs)\<rparr>"
    by (rule BlindedBeaconBlockBody.equality)
       (simp_all add: all_fields_def blindedBeaconBlockBodyJSON_of_def hex_bytes_Sprintf r g cs m)
  with marshalled_body_valid [OF assms(1,2)] assms(3) show ?thesis
    by (simp add: unpack_valid)
qed

section \<open>The claims\<close>

text \<open>
  C1, as amended. Unmarshalling what \<^verbatim>\<open>MarshalJSON\<close> wrote succeeds and gives back the
  object, field for field, except that a \<^verbatim>\<open>nil\<close> \<^verbatim>\<open>BLSToExecutionChanges\<close> comes back
  as the empty sequence; a body whose \<^verbatim>\<open>BLSToExecutionChanges\<close> is not \<^verbatim>\<open>nil\<close> comes
  back as it was. This is for a signed block with a message, and for a body whose mandatory
  fields are populated, the arrays having their lengths; and for a JSON library that reads
  back the value it was given to write (\<^verbatim>\<open>json.Unmarshal\<close> of the bytes of
  \<^verbatim>\<open>json.Marshal\<close> is the value marshalled). The receiver of \<^verbatim>\<open>UnmarshalJSON\<close> is any
  object.
\<close>

theorem json_round_trip:
  "(Message s \<noteq> None \<and> length (Signature s) = SignatureLength \<and>
    length (Signature s0) = SignatureLength \<and>
    SignedBeaconBlock_MarshalJSON json_Marshal_block s = Inr block_bytes \<and>
    json_Unmarshal_block block_bytes = Inr (signedBeaconBlockJSON_of s) \<longrightarrow>
      SignedBeaconBlock_UnmarshalJSON json_Unmarshal_block block_bytes s0 = (None, s)) \<and>
   (populated obj \<and> array_lengths obj \<and> array_lengths b0 \<and>
    BlindedBeaconBlockBody_MarshalJSON json_Marshal obj = Inr bytes \<and>
    json_Unmarshal bytes = Inr (blindedBeaconBlockBodyJSON_of obj) \<longrightarrow>
      BlindedBeaconBlockBody_UnmarshalJSON json_Unmarshal bytes b0 =
        (None, obj\<lparr>BLSToExecutionChanges :=
                     Some (case BLSToExecutionChanges obj of None \<Rightarrow> [] | Some xs \<Rightarrow> xs)\<rparr>) \<and>
      (BLSToExecutionChanges obj \<noteq> None \<longrightarrow>
         BlindedBeaconBlockBody_UnmarshalJSON json_Unmarshal bytes b0 = (None, obj)))"
proof -
  have p1: "Message s \<noteq> None \<and> length (Signature s) = SignatureLength \<and>
    length (Signature s0) = SignatureLength \<and>
    SignedBeaconBlock_MarshalJSON json_Marshal_block s = Inr block_bytes \<and>
    json_Unmarshal_block block_bytes = Inr (signedBeaconBlockJSON_of s) \<longrightarrow>
      SignedBeaconBlock_UnmarshalJSON json_Unmarshal_block block_bytes s0 = (None, s)"
  proof
    assume a: "Message s \<noteq> None \<and> length (Signature s) = SignatureLength \<and>
      length (Signature s0) = SignatureLength \<and>
      SignedBeaconBlock_MarshalJSON json_Marshal_block s = Inr block_bytes \<and>
      json_Unmarshal_block block_bytes = Inr (signedBeaconBlockJSON_of s)"
    then have ne: "Signature s \<noteq> []"
      by (auto simp add: SignatureLength_def)
    then have "Sprintf_sharp_x (Signature s) \<noteq> []"
      by (simp add: Sprintf_sharp_x_def)
    with a ne have "SignedBeaconBlock_unpack (signedBeaconBlockJSON_of s) s0 =
        (None, s0\<lparr>Message := Message s, Signature := Signature s\<rparr>)"
      by (simp add: SignedBeaconBlock_unpack_def signedBeaconBlockJSON_of_def
            DecodeString_Sprintf copy_same_length)
    moreover have "s0\<lparr>Message := Message s, Signature := Signature s\<rparr> = s"
      by (rule SignedBeaconBlock.equality) simp_all
    ultimately show "SignedBeaconBlock_UnmarshalJSON json_Unmarshal_block block_bytes s0 =
        (None, s)"
      using a by (simp add: SignedBeaconBlock_UnmarshalJSON_def)
  qed
  have p2: "populated obj \<and> array_lengths obj \<and> array_lengths b0 \<and>
    BlindedBeaconBlockBody_MarshalJSON json_Marshal obj = Inr bytes \<and>
    json_Unmarshal bytes = Inr (blindedBeaconBlockBodyJSON_of obj) \<longrightarrow>
      BlindedBeaconBlockBody_UnmarshalJSON json_Unmarshal bytes b0 =
        (None, obj\<lparr>BLSToExecutionChanges :=
                     Some (case BLSToExecutionChanges obj of None \<Rightarrow> [] | Some xs \<Rightarrow> xs)\<rparr>) \<and>
      (BLSToExecutionChanges obj \<noteq> None \<longrightarrow>
         BlindedBeaconBlockBody_UnmarshalJSON json_Unmarshal bytes b0 = (None, obj))"
  proof
    assume a: "populated obj \<and> array_lengths obj \<and> array_lengths b0 \<and>
      BlindedBeaconBlockBody_MarshalJSON json_Marshal obj = Inr bytes \<and>
      json_Unmarshal bytes = Inr (blindedBeaconBlockBodyJSON_of obj)"
    then have u: "BlindedBeaconBlockBody_UnmarshalJSON json_Unmarshal bytes b0 =
        (None, obj\<lparr>BLSToExecutionChanges :=
                     Some (case BLSToExecutionChanges obj of None \<Rightarrow> [] | Some xs \<Rightarrow> xs)\<rparr>)"
      by (simp add: BlindedBeaconBlockBody_UnmarshalJSON_def marshalled_body_unpack)
    have "BLSToExecutionChanges obj \<noteq> None \<Longrightarrow>
        obj\<lparr>BLSToExecutionChanges :=
              Some (case BLSToExecutionChanges obj of None \<Rightarrow> [] | Some xs \<Rightarrow> xs)\<rparr> = obj"
      by auto
    with u show "BlindedBeaconBlockBody_UnmarshalJSON json_Unmarshal bytes b0 =
        (None, obj\<lparr>BLSToExecutionChanges :=
                     Some (case BLSToExecutionChanges obj of None \<Rightarrow> [] | Some xs \<Rightarrow> xs)\<rparr>) \<and>
      (BLSToExecutionChanges obj \<noteq> None \<longrightarrow>
         BlindedBeaconBlockBody_UnmarshalJSON json_Unmarshal bytes b0 = (None, obj))"
      by simp
  qed
  from p1 p2 show ?thesis
    by (intro conjI)
qed

theorem json_round_trip_witness:
  "SignedBeaconBlock_UnmarshalJSON (stub_Unmarshal (signedBeaconBlockJSON_of example_block))
     ''<json>'' zero_block = (None, example_block) \<and>
   BlindedBeaconBlockBody_UnmarshalJSON
     (stub_Unmarshal (blindedBeaconBlockBodyJSON_of example_body_bls)) ''<json>'' zero_body =
     (None, example_body_bls)"
proof -
  have h1: "Message example_block \<noteq> None \<and> length (Signature example_block) = SignatureLength \<and>
      length (Signature zero_block) = SignatureLength"
    by code_simp
  have h1': "SignedBeaconBlock_MarshalJSON stub_Marshal example_block = Inr ''<json>'' \<and>
      stub_Unmarshal (signedBeaconBlockJSON_of example_block) ''<json>'' =
        Inr (signedBeaconBlockJSON_of example_block)"
    by (simp add: SignedBeaconBlock_MarshalJSON_def stub_Marshal_def stub_Unmarshal_def)
  have h2: "populated example_body_bls \<and> array_lengths example_body_bls \<and>
      array_lengths zero_body \<and> BLSToExecutionChanges example_body_bls \<noteq> None"
    by code_simp
  have h2': "BlindedBeaconBlockBody_MarshalJSON stub_Marshal example_body_bls = Inr ''<json>'' \<and>
      stub_Unmarshal (blindedBeaconBlockBodyJSON_of example_body_bls) ''<json>'' =
        Inr (blindedBeaconBlockBodyJSON_of example_body_bls)"
    by (simp add: BlindedBeaconBlockBody_MarshalJSON_def stub_Marshal_def stub_Unmarshal_def)
  from h1 h1'
    json_round_trip
      [of example_block zero_block stub_Marshal "''<json>''"
          "stub_Unmarshal (signedBeaconBlockJSON_of example_block)"
          example_body_bls zero_body stub_Marshal "''<json>''"
          "stub_Unmarshal (blindedBeaconBlockBodyJSON_of example_body_bls)"]
  have c1: "SignedBeaconBlock_UnmarshalJSON
      (stub_Unmarshal (signedBeaconBlockJSON_of example_block)) ''<json>'' zero_block =
      (None, example_block)"
    by blast
  from h2 h2'
    json_round_trip
      [of example_block zero_block stub_Marshal "''<json>''"
          "stub_Unmarshal (signedBeaconBlockJSON_of example_block)"
          example_body_bls zero_body stub_Marshal "''<json>''"
          "stub_Unmarshal (blindedBeaconBlockBodyJSON_of example_body_bls)"]
  have c2: "BlindedBeaconBlockBody_UnmarshalJSON
      (stub_Unmarshal (blindedBeaconBlockBodyJSON_of example_body_bls)) ''<json>'' zero_body =
      (None, example_body_bls)"
    by blast
  from c1 c2 show ?thesis
    by simp
qed

text \<open>
  C1 as stated fails for a body that is populated in every mandatory field and whose
  optional \<^verbatim>\<open>BLSToExecutionChanges\<close> is \<^verbatim>\<open>nil\<close>: \<^verbatim>\<open>MarshalJSON\<close> writes \<^verbatim>\<open>null\<close> for
  it, \<^verbatim>\<open>json.Unmarshal\<close> reads the \<^verbatim>\<open>nil\<close> slice back, and \<^verbatim>\<open>unpack\<close> stores the slice
  made with \<^verbatim>\<open>make\<close>, which is empty and not \<^verbatim>\<open>nil\<close>.
\<close>

theorem json_round_trip_counterexample:
  "populated example_body_nil \<and> array_lengths example_body_nil \<and>
   BLSToExecutionChanges example_body_nil = None \<and>
   BlindedBeaconBlockBody_MarshalJSON stub_Marshal example_body_nil = Inr ''<json>'' \<and>
   stub_Unmarshal (blindedBeaconBlockBodyJSON_of example_body_nil) ''<json>'' =
     Inr (blindedBeaconBlockBodyJSON_of example_body_nil) \<and>
   BlindedBeaconBlockBody_UnmarshalJSON
     (stub_Unmarshal (blindedBeaconBlockBodyJSON_of example_body_nil)) ''<json>'' zero_body =
     (None, example_body_nil\<lparr>BLSToExecutionChanges := Some []\<rparr>) \<and>
   example_body_nil\<lparr>BLSToExecutionChanges := Some []\<rparr> \<noteq> example_body_nil"
proof -
  have h: "populated example_body_nil \<and> array_lengths example_body_nil \<and>
      BLSToExecutionChanges example_body_nil = None"
    by code_simp
  have z: "array_lengths zero_body"
    by code_simp
  have m: "BlindedBeaconBlockBody_MarshalJSON stub_Marshal example_body_nil = Inr ''<json>'' \<and>
      stub_Unmarshal (blindedBeaconBlockBodyJSON_of example_body_nil) ''<json>'' =
        Inr (blindedBeaconBlockBodyJSON_of example_body_nil)"
    by (simp add: BlindedBeaconBlockBody_MarshalJSON_def stub_Marshal_def stub_Unmarshal_def)
  from h z marshalled_body_unpack [of example_body_nil zero_body]
  have u: "BlindedBeaconBlockBody_unpack (blindedBeaconBlockBodyJSON_of example_body_nil)
      zero_body = (None, example_body_nil\<lparr>BLSToExecutionChanges := Some []\<rparr>)"
    by simp
  have d: "example_body_nil\<lparr>BLSToExecutionChanges := Some []\<rparr> \<noteq> example_body_nil"
  proof
    assume "example_body_nil\<lparr>BLSToExecutionChanges := Some []\<rparr> = example_body_nil"
    then have "BLSToExecutionChanges (example_body_nil\<lparr>BLSToExecutionChanges := Some []\<rparr>) =
        BLSToExecutionChanges example_body_nil"
      by simp
    with h show False
      by simp
  qed
  from h m u d show ?thesis
    by (simp add: BlindedBeaconBlockBody_UnmarshalJSON_def)
qed

text \<open>
  C2, as amended. A failed \<^verbatim>\<open>unpack\<close> returns an error and stops at the first field
  that is not valid, but it does not restore the receiver: the fields checked before that
  field hold the values of the document, and the fields checked after it are as they were
  (so \<^verbatim>\<open>ExecutionRequests\<close>, checked last, is never written by a failed call). The
  failing field itself is not written, except that the commitments array, where all entries
  are present, is left allocated and filled up to the entry that fails. The receiver is
  unchanged where the JSON text does not parse and where the first check fails (the RANDAO
  reveal of a body, the message of a signed block); a signed block that fails later has its
  message written and its signature as it was.
\<close>

theorem failed_unpack_state:
  "(fst (SignedBeaconBlock_unpack sd s) \<noteq> None \<longrightarrow>
      snd (SignedBeaconBlock_unpack sd s) =
        (if json_Message sd = None then s else s\<lparr>Message := json_Message sd\<rparr>)) \<and>
   (json_Unmarshal input = Inl err \<longrightarrow>
      BlindedBeaconBlockBody_UnmarshalJSON json_Unmarshal input b =
        (Some (Wrap err ''invalid JSON''), b)) \<and>
   (\<not> valid_hex SignatureLength (json_RANDAOReveal d) \<longrightarrow>
      fst (BlindedBeaconBlockBody_unpack d b) \<noteq> None \<and>
      snd (BlindedBeaconBlockBody_unpack d b) = b) \<and>
   (array_lengths b \<and> fst (BlindedBeaconBlockBody_unpack d b) \<noteq> None \<longrightarrow>
      (\<exists>f. first_invalid d = Some f \<and>
           BlindedBeaconBlockBody_unpack d b =
             (Some (field_error f d),
              failed_write d f (fold (write_field d) (fields_before f) b))) \<and>
      ExecutionRequests (snd (BlindedBeaconBlockBody_unpack d b)) = ExecutionRequests b)"
proof -
  have p1: "fst (SignedBeaconBlock_unpack sd s) \<noteq> None \<longrightarrow>
      snd (SignedBeaconBlock_unpack sd s) =
        (if json_Message sd = None then s else s\<lparr>Message := json_Message sd\<rparr>)"
    by (auto simp add: SignedBeaconBlock_unpack_def Let_def split: sum.splits if_splits)
  have p2: "json_Unmarshal input = Inl err \<longrightarrow>
      BlindedBeaconBlockBody_UnmarshalJSON json_Unmarshal input b =
        (Some (Wrap err ''invalid JSON''), b)"
    by (simp add: BlindedBeaconBlockBody_UnmarshalJSON_def)
  have p3: "\<not> valid_hex SignatureLength (json_RANDAOReveal d) \<longrightarrow>
      fst (BlindedBeaconBlockBody_unpack d b) \<noteq> None \<and>
      snd (BlindedBeaconBlockBody_unpack d b) = b"
    by (simp add: unpack_RANDAOReveal_first)
  have p4: "array_lengths b \<and> fst (BlindedBeaconBlockBody_unpack d b) \<noteq> None \<longrightarrow>
      (\<exists>f. first_invalid d = Some f \<and>
           BlindedBeaconBlockBody_unpack d b =
             (Some (field_error f d),
              failed_write d f (fold (write_field d) (fields_before f) b))) \<and>
      ExecutionRequests (snd (BlindedBeaconBlockBody_unpack d b)) = ExecutionRequests b"
  proof
    assume a: "array_lengths b \<and> fst (BlindedBeaconBlockBody_unpack d b) \<noteq> None"
    then have "\<not> valid_body d"
      using unpack_succeeds_iff [of b d] by auto
    then obtain f where f: "first_invalid d = Some f"
      by (auto simp add: first_invalid_None [symmetric])
    with a have r: "BlindedBeaconBlockBody_unpack d b =
        (Some (field_error f d), failed_write d f (fold (write_field d) (fields_before f) b))"
      by (simp add: unpack_invalid)
    have "ExecutionRequests (failed_write d f (fold (write_field d) (fields_before f) b)) =
        ExecutionRequests b"
      by (cases f)
         (simp_all add: failed_write_def fields_before_def all_fields_def split: option.split)
    with f r show "(\<exists>f. first_invalid d = Some f \<and>
           BlindedBeaconBlockBody_unpack d b =
             (Some (field_error f d),
              failed_write d f (fold (write_field d) (fields_before f) b))) \<and>
      ExecutionRequests (snd (BlindedBeaconBlockBody_unpack d b)) = ExecutionRequests b"
      by simp
  qed
  from p1 p2 p3 p4 show ?thesis
    by (intro conjI)
qed

theorem failed_unpack_state_witness:
  "snd (SignedBeaconBlock_unpack (example_block_json\<lparr>json_Signature := ''0xzz''\<rparr>) zero_block) =
     zero_block\<lparr>Message := Some 7\<rparr> \<and>
   snd (BlindedBeaconBlockBody_unpack (example_body_json\<lparr>json_RANDAOReveal := ''0xzz''\<rparr>)
          zero_body) = zero_body \<and>
   BlindedBeaconBlockBody_unpack (example_body_json\<lparr>json_Graffiti := ''0xzz''\<rparr>) zero_body =
     (Some (Wrap (InvalidByteError CHR ''z'') ''invalid value for graffiti''),
      zero_body\<lparr>RANDAOReveal := replicate 96 1, ETH1Data := Some 1\<rparr>) \<and>
   ExecutionRequests
     (snd (BlindedBeaconBlockBody_unpack (example_body_json\<lparr>json_Graffiti := ''0xzz''\<rparr>)
             zero_body)) = None"
proof -
  let ?sz = "example_block_json\<lparr>json_Signature := ''0xzz''\<rparr>"
  let ?rz = "example_body_json\<lparr>json_RANDAOReveal := ''0xzz''\<rparr>"
  let ?gz = "example_body_json\<lparr>json_Graffiti := ''0xzz''\<rparr>"
  have h1: "fst (SignedBeaconBlock_unpack ?sz zero_block) \<noteq> None"
    by code_simp
  have m: "json_Message ?sz = Some 7"
    by (simp add: example_block_json_def)
  have h3: "\<not> valid_hex SignatureLength (json_RANDAOReveal ?rz)"
    by code_simp
  have h4: "array_lengths zero_body \<and> fst (BlindedBeaconBlockBody_unpack ?gz zero_body) \<noteq> None"
    by code_simp
  have fi: "first_invalid ?gz = Some f_graffiti"
    by code_simp
  have fe: "field_error f_graffiti ?gz =
      Wrap (InvalidByteError CHR ''z'') ''invalid value for graffiti''"
    by code_simp
  have fw: "failed_write ?gz f_graffiti (fold (write_field ?gz) (fields_before f_graffiti) zero_body)
      = zero_body\<lparr>RANDAOReveal := replicate 96 1, ETH1Data := Some 1\<rparr>"
    by code_simp
  have ze: "ExecutionRequests zero_body = None"
    by (simp add: zero_body_def)
  from h1 m
    failed_unpack_state [of ?sz zero_block "\<lambda>input. Inr example_body_json" "[]" "LibError []"
      zero_body example_body_json]
  have c1: "snd (SignedBeaconBlock_unpack ?sz zero_block) = zero_block\<lparr>Message := Some 7\<rparr>"
    by simp
  from h3
    failed_unpack_state [of ?sz zero_block "\<lambda>input. Inr example_body_json" "[]" "LibError []"
      zero_body ?rz]
  have c2: "snd (BlindedBeaconBlockBody_unpack ?rz zero_body) = zero_body"
    by blast
  from h4
    failed_unpack_state [of ?sz zero_block "\<lambda>input. Inr example_body_json" "[]" "LibError []"
      zero_body ?gz]
  have c34: "(\<exists>f. first_invalid ?gz = Some f \<and>
           BlindedBeaconBlockBody_unpack ?gz zero_body =
             (Some (field_error f ?gz),
              failed_write ?gz f (fold (write_field ?gz) (fields_before f) zero_body))) \<and>
      ExecutionRequests (snd (BlindedBeaconBlockBody_unpack ?gz zero_body)) =
        ExecutionRequests zero_body"
    by blast
  with fi fe fw have c3: "BlindedBeaconBlockBody_unpack ?gz zero_body =
     (Some (Wrap (InvalidByteError CHR ''z'') ''invalid value for graffiti''),
      zero_body\<lparr>RANDAOReveal := replicate 96 1, ETH1Data := Some 1\<rparr>)"
    by auto
  from c34 ze have c4: "ExecutionRequests (snd (BlindedBeaconBlockBody_unpack ?gz zero_body)) = None"
    by simp
  from c1 c2 c3 c4 show ?thesis
    by simp
qed

text \<open>
  C2 as stated fails. A body document with a valid \<^verbatim>\<open>randao_reveal\<close> and no
  \<^verbatim>\<open>eth1_data\<close> is rejected, and the receiver (here the zero value) has its
  \<^verbatim>\<open>RANDAOReveal\<close> overwritten by then; a signed block document with a message and no
  signature is rejected with the message written.
\<close>

theorem failed_unpack_counterexample:
  "BlindedBeaconBlockBody_unpack (example_body_json\<lparr>json_ETH1Data := None\<rparr>) zero_body =
     (Some (New ''ETH1 data missing''), zero_body\<lparr>RANDAOReveal := replicate 96 1\<rparr>) \<and>
   RANDAOReveal (zero_body\<lparr>RANDAOReveal := replicate 96 1\<rparr>) \<noteq> RANDAOReveal zero_body \<and>
   SignedBeaconBlock_unpack (example_block_json\<lparr>json_Signature := []\<rparr>) zero_block =
     (Some (New ''signature missing''), zero_block\<lparr>Message := Some 7\<rparr>) \<and>
   Message (zero_block\<lparr>Message := Some 7\<rparr>) \<noteq> Message zero_block"
  by code_simp






text \<open>
  C5, as amended. The fixed-length byte fields. A field whose hex digits decode to a number
  of bytes other than the mandated one (96 for the signature and the RANDAO reveal, 32 for
  the graffiti, 48 for a blob KZG commitment) makes \<^verbatim>\<open>unpack\<close> fail, and the error is
  the incorrect-length error of that field where it is the first thing that is not valid:
  for the signature, the message being present; for the RANDAO reveal, always, as it is
  checked first; for the graffiti, the checks before it passing; for a commitment, the
  checks before the commitments passing, no commitment being empty, and the commitment
  being the first that is not valid. A signature of exactly 96 bytes is accepted and stored
  as decoded; a document whose fields are all valid is accepted, and after a success the
  three fields of a body hold exactly the decoded bytes, of the mandated lengths: nothing is
  truncated or padded.
\<close>

theorem fixed_length_enforced:
  "(json_Message sd \<noteq> None \<and> json_Signature sd \<noteq> [] \<and>
    DecodeString (TrimPrefix (json_Signature sd) ''0x'') = Inr sig \<longrightarrow>
      (length sig \<noteq> SignatureLength \<longrightarrow>
         fst (SignedBeaconBlock_unpack sd s) =
           Some (Errorf ''incorrect length %d for signature'' (length sig))) \<and>
      (length sig = SignatureLength \<and> length (Signature s) = SignatureLength \<longrightarrow>
         SignedBeaconBlock_unpack sd s =
           (None, s\<lparr>Message := json_Message sd, Signature := sig\<rparr>))) \<and>
   (json_RANDAOReveal d \<noteq> [] \<and>
    DecodeString (TrimPrefix (json_RANDAOReveal d) ''0x'') = Inr bs \<and>
    length bs \<noteq> SignatureLength \<longrightarrow>
      BlindedBeaconBlockBody_unpack d b = (Some (New ''incorrect length for RANDAO reveal''), b)) \<and>
   (array_lengths b \<and> json_Graffiti d \<noteq> [] \<and>
    DecodeString (TrimPrefix (json_Graffiti d) ''0x'') = Inr bs \<and>
    length bs \<noteq> GraffitiLength \<longrightarrow>
      fst (BlindedBeaconBlockBody_unpack d b) \<noteq> None \<and>
      (checks_before f_graffiti d \<longrightarrow>
         fst (BlindedBeaconBlockBody_unpack d b) = Some (New ''incorrect length for graffiti''))) \<and>
   (array_lengths b \<and> json_BlobKZGCommitments d = Some cs \<and> c \<in> set cs \<and>
    DecodeString (TrimPrefix c ''0x'') = Inr bs \<and> length bs \<noteq> KZGCommitmentLength \<longrightarrow>
      fst (BlindedBeaconBlockBody_unpack d b) \<noteq> None \<and>
      (checks_before f_blob_kzg_commitments d \<and> list_all (\<lambda>c. c \<noteq> []) cs \<and>
       cs ! first_bad_commitment cs = c \<longrightarrow>
         fst (BlindedBeaconBlockBody_unpack d b) =
           Some (New ''incorrect length for blob KZG commitment''))) \<and>
   (array_lengths b \<and> valid_body d \<longrightarrow> fst (BlindedBeaconBlockBody_unpack d b) = None) \<and>
   (array_lengths b \<and> fst (BlindedBeaconBlockBody_unpack d b) = None \<longrightarrow>
      RANDAOReveal (snd (BlindedBeaconBlockBody_unpack d b)) = hex_bytes (json_RANDAOReveal d) \<and>
      length (RANDAOReveal (snd (BlindedBeaconBlockBody_unpack d b))) = SignatureLength \<and>
      Graffiti (snd (BlindedBeaconBlockBody_unpack d b)) = hex_bytes (json_Graffiti d) \<and>
      length (Graffiti (snd (BlindedBeaconBlockBody_unpack d b))) = GraffitiLength \<and>
      (\<exists>ys. json_BlobKZGCommitments d = Some ys \<and>
            BlobKZGCommitments (snd (BlindedBeaconBlockBody_unpack d b)) =
              Some (map hex_bytes ys) \<and>
            list_all (\<lambda>y. length (hex_bytes y) = KZGCommitmentLength) ys))"
proof -
  have p1: "json_Message sd \<noteq> None \<and> json_Signature sd \<noteq> [] \<and>
    DecodeString (TrimPrefix (json_Signature sd) ''0x'') = Inr sig \<longrightarrow>
      (length sig \<noteq> SignatureLength \<longrightarrow>
         fst (SignedBeaconBlock_unpack sd s) =
           Some (Errorf ''incorrect length %d for signature'' (length sig))) \<and>
      (length sig = SignatureLength \<and> length (Signature s) = SignatureLength \<longrightarrow>
         SignedBeaconBlock_unpack sd s =
           (None, s\<lparr>Message := json_Message sd, Signature := sig\<rparr>))"
    by (auto simp add: SignedBeaconBlock_unpack_def copy_same_length)
  have p2: "json_RANDAOReveal d \<noteq> [] \<and>
    DecodeString (TrimPrefix (json_RANDAOReveal d) ''0x'') = Inr bs \<and>
    length bs \<noteq> SignatureLength \<longrightarrow>
      BlindedBeaconBlockBody_unpack d b = (Some (New ''incorrect length for RANDAO reveal''), b)"
  proof
    assume a: "json_RANDAOReveal d \<noteq> [] \<and>
      DecodeString (TrimPrefix (json_RANDAOReveal d) ''0x'') = Inr bs \<and>
      length bs \<noteq> SignatureLength"
    then have "\<not> valid_hex SignatureLength (json_RANDAOReveal d)"
      by (simp add: valid_hex_def)
    from unpack_RANDAOReveal_first [OF this] a
    show "BlindedBeaconBlockBody_unpack d b =
        (Some (New ''incorrect length for RANDAO reveal''), b)"
      by (simp add: hex_field_error_def)
  qed
  have p3: "array_lengths b \<and> json_Graffiti d \<noteq> [] \<and>
    DecodeString (TrimPrefix (json_Graffiti d) ''0x'') = Inr bs \<and>
    length bs \<noteq> GraffitiLength \<longrightarrow>
      fst (BlindedBeaconBlockBody_unpack d b) \<noteq> None \<and>
      (checks_before f_graffiti d \<longrightarrow>
         fst (BlindedBeaconBlockBody_unpack d b) = Some (New ''incorrect length for graffiti''))"
  proof
    assume a: "array_lengths b \<and> json_Graffiti d \<noteq> [] \<and>
      DecodeString (TrimPrefix (json_Graffiti d) ''0x'') = Inr bs \<and>
      length bs \<noteq> GraffitiLength"
    then have inv: "\<not> field_valid f_graffiti d"
      and err: "field_error f_graffiti d = New ''incorrect length for graffiti''"
      by (simp_all add: valid_hex_def hex_field_error_def)
    from a inv err unpack_fails [of f_graffiti d b] unpack_error_at [of f_graffiti d b]
    show "fst (BlindedBeaconBlockBody_unpack d b) \<noteq> None \<and>
      (checks_before f_graffiti d \<longrightarrow>
         fst (BlindedBeaconBlockBody_unpack d b) = Some (New ''incorrect length for graffiti''))"
      by simp
  qed
  have p4: "array_lengths b \<and> json_BlobKZGCommitments d = Some cs \<and> c \<in> set cs \<and>
    DecodeString (TrimPrefix c ''0x'') = Inr bs \<and> length bs \<noteq> KZGCommitmentLength \<longrightarrow>
      fst (BlindedBeaconBlockBody_unpack d b) \<noteq> None \<and>
      (checks_before f_blob_kzg_commitments d \<and> list_all (\<lambda>c. c \<noteq> []) cs \<and>
       cs ! first_bad_commitment cs = c \<longrightarrow>
         fst (BlindedBeaconBlockBody_unpack d b) =
           Some (New ''incorrect length for blob KZG commitment''))"
  proof
    assume a: "array_lengths b \<and> json_BlobKZGCommitments d = Some cs \<and> c \<in> set cs \<and>
      DecodeString (TrimPrefix c ''0x'') = Inr bs \<and> length bs \<noteq> KZGCommitmentLength"
    then have "\<not> valid_hex KZGCommitmentLength c"
      by (simp add: valid_hex_def)
    with a have nv: "\<not> list_all (\<lambda>c. \<not> \<not> valid_hex KZGCommitmentLength c) cs"
      by (auto simp add: list_all_iff)
    with a have inv: "\<not> field_valid f_blob_kzg_commitments d"
      by simp
    have err: "field_error f_blob_kzg_commitments d =
        New ''incorrect length for blob KZG commitment''"
      if "list_all (\<lambda>c. c \<noteq> []) cs" and "cs ! first_bad_commitment cs = c"
      using that a by (simp add: commitments_error_def commitment_error_def)
    from a inv err unpack_fails [of f_blob_kzg_commitments d b]
      unpack_error_at [of f_blob_kzg_commitments d b]
    show "fst (BlindedBeaconBlockBody_unpack d b) \<noteq> None \<and>
      (checks_before f_blob_kzg_commitments d \<and> list_all (\<lambda>c. c \<noteq> []) cs \<and>
       cs ! first_bad_commitment cs = c \<longrightarrow>
         fst (BlindedBeaconBlockBody_unpack d b) =
           Some (New ''incorrect length for blob KZG commitment''))"
      by simp
  qed
  have p5: "array_lengths b \<and> valid_body d \<longrightarrow> fst (BlindedBeaconBlockBody_unpack d b) = None"
    by (simp add: unpack_valid)
  have p6: "array_lengths b \<and> fst (BlindedBeaconBlockBody_unpack d b) = None \<longrightarrow>
      RANDAOReveal (snd (BlindedBeaconBlockBody_unpack d b)) = hex_bytes (json_RANDAOReveal d) \<and>
      length (RANDAOReveal (snd (BlindedBeaconBlockBody_unpack d b))) = SignatureLength \<and>
      Graffiti (snd (BlindedBeaconBlockBody_unpack d b)) = hex_bytes (json_Graffiti d) \<and>
      length (Graffiti (snd (BlindedBeaconBlockBody_unpack d b))) = GraffitiLength \<and>
      (\<exists>ys. json_BlobKZGCommitments d = Some ys \<and>
            BlobKZGCommitments (snd (BlindedBeaconBlockBody_unpack d b)) =
              Some (map hex_bytes ys) \<and>
            list_all (\<lambda>y. length (hex_bytes y) = KZGCommitmentLength) ys)"
  proof
    assume a: "array_lengths b \<and> fst (BlindedBeaconBlockBody_unpack d b) = None"
    then have v: "valid_body d"
      using unpack_succeeds_iff [of b d] by simp
    with a have r: "BlindedBeaconBlockBody_unpack d b = (None, fold (write_field d) all_fields b)"
      by (simp add: unpack_valid)
    have len: "valid_hex n x \<Longrightarrow> length (hex_bytes x) = n" for n x
      by (auto simp add: valid_hex_def hex_bytes_def split: sum.splits)
    from v obtain ys where ys: "json_BlobKZGCommitments d = Some ys"
      "list_all (valid_hex KZGCommitmentLength) ys"
      by (auto simp add: valid_body_def all_fields_def split: option.splits)
    then have "list_all (\<lambda>y. length (hex_bytes y) = KZGCommitmentLength) ys"
      by (auto simp add: list_all_iff len)
    with v ys show "RANDAOReveal (snd (BlindedBeaconBlockBody_unpack d b)) =
        hex_bytes (json_RANDAOReveal d) \<and>
      length (RANDAOReveal (snd (BlindedBeaconBlockBody_unpack d b))) = SignatureLength \<and>
      Graffiti (snd (BlindedBeaconBlockBody_unpack d b)) = hex_bytes (json_Graffiti d) \<and>
      length (Graffiti (snd (BlindedBeaconBlockBody_unpack d b))) = GraffitiLength \<and>
      (\<exists>ys. json_BlobKZGCommitments d = Some ys \<and>
            BlobKZGCommitments (snd (BlindedBeaconBlockBody_unpack d b)) =
              Some (map hex_bytes ys) \<and>
            list_all (\<lambda>y. length (hex_bytes y) = KZGCommitmentLength) ys)"
      by (simp add: r all_fields_def valid_body_def len)
  qed
  from p1 p2 p3 p4 p5 p6 show ?thesis
    by (intro conjI)
qed

theorem fixed_length_enforced_witness:
  "fst (SignedBeaconBlock_unpack
          (example_block_json\<lparr>json_Signature := ''0x'' @ concat (replicate 95 ''ab'')\<rparr>)
          zero_block) = Some (Errorf ''incorrect length %d for signature'' 95) \<and>
   fst (SignedBeaconBlock_unpack
          (example_block_json\<lparr>json_Signature := ''0x'' @ concat (replicate 97 ''ab'')\<rparr>)
          zero_block) = Some (Errorf ''incorrect length %d for signature'' 97) \<and>
   SignedBeaconBlock_unpack example_block_json zero_block =
     (None, \<lparr>Message = Some 7, Signature = replicate 96 0xab\<rparr>) \<and>
   BlindedBeaconBlockBody_unpack
     (example_body_json\<lparr>json_RANDAOReveal := ''0x'' @ concat (replicate 97 ''01'')\<rparr>) zero_body =
     (Some (New ''incorrect length for RANDAO reveal''), zero_body) \<and>
   fst (BlindedBeaconBlockBody_unpack
          (example_body_json\<lparr>json_Graffiti := ''0x'' @ concat (replicate 31 ''02'')\<rparr>)
          zero_body) = Some (New ''incorrect length for graffiti'') \<and>
   fst (BlindedBeaconBlockBody_unpack
          (example_body_json
             \<lparr>json_BlobKZGCommitments := Some [''0x'' @ concat (replicate 47 ''03'')]\<rparr>)
          zero_body) = Some (New ''incorrect length for blob KZG commitment'') \<and>
   fst (BlindedBeaconBlockBody_unpack example_body_json zero_body) = None \<and>
   RANDAOReveal (snd (BlindedBeaconBlockBody_unpack example_body_json zero_body)) =
     replicate 96 1 \<and>
   Graffiti (snd (BlindedBeaconBlockBody_unpack example_body_json zero_body)) =
     replicate 32 2"
proof -
  let ?s95 = "example_block_json\<lparr>json_Signature := ''0x'' @ concat (replicate 95 ''ab'')\<rparr>"
  let ?s97 = "example_block_json\<lparr>json_Signature := ''0x'' @ concat (replicate 97 ''ab'')\<rparr>"
  let ?r97 = "example_body_json\<lparr>json_RANDAOReveal := ''0x'' @ concat (replicate 97 ''01'')\<rparr>"
  let ?g31 = "example_body_json\<lparr>json_Graffiti := ''0x'' @ concat (replicate 31 ''02'')\<rparr>"
  let ?c47 = "example_body_json
                \<lparr>json_BlobKZGCommitments := Some [''0x'' @ concat (replicate 47 ''03'')]\<rparr>"
  have h95: "json_Message ?s95 \<noteq> None \<and> json_Signature ?s95 \<noteq> [] \<and>
      DecodeString (TrimPrefix (json_Signature ?s95) ''0x'') = Inr (replicate 95 0xab)"
    by code_simp
  have h97: "json_Message ?s97 \<noteq> None \<and> json_Signature ?s97 \<noteq> [] \<and>
      DecodeString (TrimPrefix (json_Signature ?s97) ''0x'') = Inr (replicate 97 0xab)"
    by code_simp
  have h96: "json_Message example_block_json \<noteq> None \<and> json_Signature example_block_json \<noteq> [] \<and>
      DecodeString (TrimPrefix (json_Signature example_block_json) ''0x'') =
        Inr (replicate 96 0xab)"
    by code_simp
  have hr: "json_RANDAOReveal ?r97 \<noteq> [] \<and>
      DecodeString (TrimPrefix (json_RANDAOReveal ?r97) ''0x'') = Inr (replicate 97 1) \<and>
      length (replicate 97 (1 :: byte)) \<noteq> SignatureLength"
    by code_simp
  have hg: "array_lengths zero_body \<and> json_Graffiti ?g31 \<noteq> [] \<and>
      DecodeString (TrimPrefix (json_Graffiti ?g31) ''0x'') = Inr (replicate 31 2) \<and>
      length (replicate 31 (2 :: byte)) \<noteq> GraffitiLength"
    by code_simp
  have kg: "checks_before f_graffiti ?g31"
    by code_simp
  have dc: "DecodeString (TrimPrefix (''0x'' @ concat (replicate 47 ''03'')) ''0x'') =
      Inr (replicate 47 3)"
    by code_simp
  have hc: "array_lengths zero_body \<and>
      json_BlobKZGCommitments ?c47 = Some [''0x'' @ concat (replicate 47 ''03'')] \<and>
      ''0x'' @ concat (replicate 47 ''03'') \<in> set [''0x'' @ concat (replicate 47 ''03'')] \<and>
      length (replicate 47 (3 :: byte)) \<noteq> KZGCommitmentLength"
    by code_simp
  have kc: "checks_before f_blob_kzg_commitments ?c47"
    by code_simp
  have lc: "list_all (\<lambda>c. c \<noteq> []) [''0x'' @ concat (replicate 47 ''03'')] \<and>
      [''0x'' @ concat (replicate 47 ''03'')] !
        first_bad_commitment [''0x'' @ concat (replicate 47 ''03'')] =
        ''0x'' @ concat (replicate 47 ''03'')"
    by code_simp
  have hv: "array_lengths zero_body \<and> valid_body example_body_json"
    by code_simp
  have m: "json_Message example_block_json = Some 7"
    by (simp add: example_block_json_def)
  have z: "length (Signature zero_block) = SignatureLength"
    by code_simp
  have zb: "zero_block\<lparr>Message := Some 7, Signature := replicate 96 0xab\<rparr> =
      \<lparr>Message = Some 7, Signature = replicate 96 0xab\<rparr>"
    by (simp add: zero_block_def)
  have hr1: "hex_bytes (json_RANDAOReveal example_body_json) = replicate 96 1"
    by code_simp
  have hg1: "hex_bytes (json_Graffiti example_body_json) = replicate 32 2"
    by code_simp
  from h95
    fixed_length_enforced [of ?s95 "replicate 95 0xab" zero_block example_body_json "[]" zero_body
      "[]" "[]"]
  have c1: "fst (SignedBeaconBlock_unpack ?s95 zero_block) =
      Some (Errorf ''incorrect length %d for signature'' 95)"
    by (simp add: SignatureLength_def)
  from h97
    fixed_length_enforced [of ?s97 "replicate 97 0xab" zero_block example_body_json "[]" zero_body
      "[]" "[]"]
  have c2: "fst (SignedBeaconBlock_unpack ?s97 zero_block) =
      Some (Errorf ''incorrect length %d for signature'' 97)"
    by (simp add: SignatureLength_def)
  from h96 z m zb
    fixed_length_enforced [of example_block_json "replicate 96 0xab" zero_block example_body_json
      "[]" zero_body "[]" "[]"]
  have c3: "SignedBeaconBlock_unpack example_block_json zero_block =
      (None, \<lparr>Message = Some 7, Signature = replicate 96 0xab\<rparr>)"
    by (simp add: SignatureLength_def)
  from hr
    fixed_length_enforced [of example_block_json "[]" zero_block ?r97 "replicate 97 1" zero_body
      "[]" "[]"]
  have c4: "BlindedBeaconBlockBody_unpack ?r97 zero_body =
      (Some (New ''incorrect length for RANDAO reveal''), zero_body)"
    by blast
  from hg kg
    fixed_length_enforced [of example_block_json "[]" zero_block ?g31 "replicate 31 2" zero_body
      "[]" "[]"]
  have c5: "fst (BlindedBeaconBlockBody_unpack ?g31 zero_body) =
      Some (New ''incorrect length for graffiti'')"
    by blast
  from hc kc lc dc
    fixed_length_enforced [of example_block_json "[]" zero_block ?c47 "replicate 47 3" zero_body
      "[''0x'' @ concat (replicate 47 ''03'')]" "''0x'' @ concat (replicate 47 ''03'')"]
  have c6: "fst (BlindedBeaconBlockBody_unpack ?c47 zero_body) =
      Some (New ''incorrect length for blob KZG commitment'')"
    by blast
  from hv
    fixed_length_enforced [of example_block_json "[]" zero_block example_body_json "[]" zero_body
      "[]" "[]"]
  have c7: "fst (BlindedBeaconBlockBody_unpack example_body_json zero_body) = None"
    by blast
  from c7 hv hr1 hg1
    fixed_length_enforced [of example_block_json "[]" zero_block example_body_json "[]" zero_body
      "[]" "[]"]
  have c8: "RANDAOReveal (snd (BlindedBeaconBlockBody_unpack example_body_json zero_body)) =
      replicate 96 1 \<and>
    Graffiti (snd (BlindedBeaconBlockBody_unpack example_body_json zero_body)) = replicate 32 2"
    by simp
  from c1 c2 c3 c4 c5 c6 c7 c8 show ?thesis
    by simp
qed

text \<open>
  C5 as stated fails: a graffiti of 31 bytes in a document that has no \<^verbatim>\<open>eth1_data\<close>
  is rejected with the missing error of \<^verbatim>\<open>eth1_data\<close>, which is checked first, not with
  a length error.
\<close>

theorem fixed_length_counterexample:
  "DecodeString (TrimPrefix (''0x'' @ concat (replicate 31 ''02'')) ''0x'') =
     Inr (replicate 31 2) \<and>
   BlindedBeaconBlockBody_unpack
     (example_body_json
        \<lparr>json_ETH1Data := None, json_Graffiti := ''0x'' @ concat (replicate 31 ''02'')\<rparr>)
     zero_body =
     (Some (New ''ETH1 data missing''), zero_body\<lparr>RANDAOReveal := replicate 96 1\<rparr>)"
  by code_simp

text \<open>
  C6, as amended. A mandatory field that is missing (an empty string, a \<^verbatim>\<open>nil\<close> pointer
  or a \<^verbatim>\<open>nil\<close> slice, as \<^verbatim>\<open>json.Unmarshal\<close> leaves them for a key that is not there)
  makes \<^verbatim>\<open>unpack\<close> fail: it never succeeds, whatever the other fields are. The error is
  the missing error of that very field where the checks before the field pass, that is,
  where the field is the first that is not valid. So a document without \<^verbatim>\<open>randao_reveal\<close>,
  the field checked first, always fails with \<^verbatim>\<open>RANDAO reveal missing\<close>, through
  \<^verbatim>\<open>UnmarshalJSON\<close> as well. An empty string among the blob KZG commitments is the
  missing error of that entry. The same holds for the message and the signature of a signed
  block.
\<close>

theorem missing_field_is_error:
  "(json_Message sd = None \<longrightarrow>
      SignedBeaconBlock_unpack sd s = (Some (New ''message missing''), s)) \<and>
   (json_Message sd \<noteq> None \<and> json_Signature sd = [] \<longrightarrow>
      SignedBeaconBlock_unpack sd s =
        (Some (New ''signature missing''), s\<lparr>Message := json_Message sd\<rparr>)) \<and>
   (array_lengths b \<and> field_absent f d \<longrightarrow>
      fst (BlindedBeaconBlockBody_unpack d b) \<noteq> None) \<and>
   (array_lengths b \<and> field_absent f d \<and> checks_before f d \<longrightarrow>
      fst (BlindedBeaconBlockBody_unpack d b) = Some (New (field_name f @ '' missing''))) \<and>
   (json_RANDAOReveal d = [] \<longrightarrow>
      BlindedBeaconBlockBody_unpack d b = (Some (New ''RANDAO reveal missing''), b)) \<and>
   (json_Unmarshal input = Inr d \<and> json_RANDAOReveal d = [] \<longrightarrow>
      BlindedBeaconBlockBody_UnmarshalJSON json_Unmarshal input b =
        (Some (New ''RANDAO reveal missing''), b)) \<and>
   (array_lengths b \<and> checks_before f_blob_kzg_commitments d \<and>
    json_BlobKZGCommitments d = Some cs \<and> [] \<in> set cs \<longrightarrow>
      fst (BlindedBeaconBlockBody_unpack d b) =
        Some (Errorf ''blob KZG commitments entry %d missing'' (first_index (\<lambda>c. c = []) cs)) \<and>
      first_index (\<lambda>c. c = []) cs < length cs \<and> cs ! first_index (\<lambda>c. c = []) cs = [])"
proof -
  have p1: "json_Message sd = None \<longrightarrow>
      SignedBeaconBlock_unpack sd s = (Some (New ''message missing''), s)"
    by (simp add: SignedBeaconBlock_unpack_def)
  have p2: "json_Message sd \<noteq> None \<and> json_Signature sd = [] \<longrightarrow>
      SignedBeaconBlock_unpack sd s =
        (Some (New ''signature missing''), s\<lparr>Message := json_Message sd\<rparr>)"
    by (simp add: SignedBeaconBlock_unpack_def)
  have p3: "array_lengths b \<and> field_absent f d \<longrightarrow>
      fst (BlindedBeaconBlockBody_unpack d b) \<noteq> None"
    using unpack_fails [of f d b] by (simp add: field_absent_invalid)
  have p4: "array_lengths b \<and> field_absent f d \<and> checks_before f d \<longrightarrow>
      fst (BlindedBeaconBlockBody_unpack d b) = Some (New (field_name f @ '' missing''))"
    using unpack_error_at [of f d b] by (simp add: field_absent_invalid field_absent_error)
  have p5: "json_RANDAOReveal d = [] \<longrightarrow>
      BlindedBeaconBlockBody_unpack d b = (Some (New ''RANDAO reveal missing''), b)" for d
  proof
    assume a: "json_RANDAOReveal d = []"
    then have "\<not> valid_hex SignatureLength (json_RANDAOReveal d)"
      by (simp add: valid_hex_def)
    from unpack_RANDAOReveal_first [OF this] a
    show "BlindedBeaconBlockBody_unpack d b = (Some (New ''RANDAO reveal missing''), b)"
      by (simp add: hex_field_error_def)
  qed
  have p6: "json_Unmarshal input = Inr d \<and> json_RANDAOReveal d = [] \<longrightarrow>
      BlindedBeaconBlockBody_UnmarshalJSON json_Unmarshal input b =
        (Some (New ''RANDAO reveal missing''), b)"
    using p5 [of d] by (auto simp add: BlindedBeaconBlockBody_UnmarshalJSON_def)
  have p7: "array_lengths b \<and> checks_before f_blob_kzg_commitments d \<and>
    json_BlobKZGCommitments d = Some cs \<and> [] \<in> set cs \<longrightarrow>
      fst (BlindedBeaconBlockBody_unpack d b) =
        Some (Errorf ''blob KZG commitments entry %d missing'' (first_index (\<lambda>c. c = []) cs)) \<and>
      first_index (\<lambda>c. c = []) cs < length cs \<and> cs ! first_index (\<lambda>c. c = []) cs = []"
  proof
    assume a: "array_lengths b \<and> checks_before f_blob_kzg_commitments d \<and>
      json_BlobKZGCommitments d = Some cs \<and> [] \<in> set cs"
    then have ne: "\<not> list_all (\<lambda>c. \<not> c = []) cs"
      by (auto simp add: list_all_iff)
    then have "\<not> list_all (valid_hex KZGCommitmentLength) cs"
      using valid_hex_nonempty [of KZGCommitmentLength cs] by auto
    with a have "\<not> field_valid f_blob_kzg_commitments d"
      by simp
    moreover from a ne have "field_error f_blob_kzg_commitments d =
        Errorf ''blob KZG commitments entry %d missing'' (first_index (\<lambda>c. c = []) cs)"
      by (simp add: commitments_error_def)
    ultimately show "fst (BlindedBeaconBlockBody_unpack d b) =
        Some (Errorf ''blob KZG commitments entry %d missing'' (first_index (\<lambda>c. c = []) cs)) \<and>
        first_index (\<lambda>c. c = []) cs < length cs \<and> cs ! first_index (\<lambda>c. c = []) cs = []"
      using a unpack_error_at [of f_blob_kzg_commitments d b]
        first_index_less [OF ne] first_index_holds [OF ne]
      by simp
  qed
  from p1 p2 p3 p4 p5 [of d] p6 p7 show ?thesis
    by (intro conjI)
qed

theorem missing_field_is_error_witness:
  "SignedBeaconBlock_unpack (example_block_json\<lparr>json_Message := None\<rparr>) zero_block =
     (Some (New ''message missing''), zero_block) \<and>
   SignedBeaconBlock_unpack (example_block_json\<lparr>json_Signature := []\<rparr>) zero_block =
     (Some (New ''signature missing''), zero_block\<lparr>Message := Some 7\<rparr>) \<and>
   fst (BlindedBeaconBlockBody_unpack (example_body_json\<lparr>json_Deposits := None\<rparr>) zero_body) =
     Some (New ''deposits missing'') \<and>
   BlindedBeaconBlockBody_UnmarshalJSON
     (\<lambda>input. Inr (example_body_json\<lparr>json_RANDAOReveal := []\<rparr>)) ''{}'' zero_body =
     (Some (New ''RANDAO reveal missing''), zero_body) \<and>
   fst (BlindedBeaconBlockBody_unpack
          (example_body_json\<lparr>json_BlobKZGCommitments := Some [[] :: string]\<rparr>) zero_body) =
     Some (Errorf ''blob KZG commitments entry %d missing'' 0)"
proof -
  have h1: "json_Message (example_block_json\<lparr>json_Message := None\<rparr>) = None"
    by simp
  have h2: "json_Message (example_block_json\<lparr>json_Signature := []\<rparr>) \<noteq> None \<and>
            json_Signature (example_block_json\<lparr>json_Signature := []\<rparr>) = []"
    by (simp add: example_block_json_def)
  have h3: "array_lengths zero_body \<and>
            field_absent f_deposits (example_body_json\<lparr>json_Deposits := None\<rparr>) \<and>
            checks_before f_deposits (example_body_json\<lparr>json_Deposits := None\<rparr>)"
    by code_simp
  have h4: "(\<lambda>input. Inr (example_body_json\<lparr>json_RANDAOReveal := []\<rparr>)) ''{}'' =
              Inr (example_body_json\<lparr>json_RANDAOReveal := []\<rparr>) \<and>
            json_RANDAOReveal (example_body_json\<lparr>json_RANDAOReveal := []\<rparr>) = []"
    by simp
  have h5: "array_lengths zero_body \<and>
            checks_before f_blob_kzg_commitments
              (example_body_json\<lparr>json_BlobKZGCommitments := Some [[] :: string]\<rparr>) \<and>
            json_BlobKZGCommitments (example_body_json\<lparr>json_BlobKZGCommitments := Some [[] :: string]\<rparr>)
              = Some [[] :: string] \<and>
            [] \<in> set [[] :: string]"
    by code_simp
  have m: "json_Message example_block_json = Some 7"
    by (simp add: example_block_json_def)
  from h1
    missing_field_is_error
      [of "example_block_json\<lparr>json_Message := None\<rparr>" zero_block zero_body f_deposits
          example_body_json "\<lambda>input. Inr example_body_json" "''{}''" "[]"]
  have c1: "SignedBeaconBlock_unpack (example_block_json\<lparr>json_Message := None\<rparr>) zero_block =
     (Some (New ''message missing''), zero_block)"
    by blast
  from h2 m
    missing_field_is_error
      [of "example_block_json\<lparr>json_Signature := []\<rparr>" zero_block zero_body f_deposits
          example_body_json "\<lambda>input. Inr example_body_json" "''{}''" "[]"]
  have c2: "SignedBeaconBlock_unpack (example_block_json\<lparr>json_Signature := []\<rparr>) zero_block =
     (Some (New ''signature missing''), zero_block\<lparr>Message := Some 7\<rparr>)"
    by simp
  from h3
    missing_field_is_error
      [of example_block_json zero_block zero_body f_deposits
          "example_body_json\<lparr>json_Deposits := None\<rparr>" "\<lambda>input. Inr example_body_json"
          "''{}''" "[]"]
  have c3: "fst (BlindedBeaconBlockBody_unpack (example_body_json\<lparr>json_Deposits := None\<rparr>)
       zero_body) = Some (New ''deposits missing'')"
    by simp
  from h4
    missing_field_is_error
      [of example_block_json zero_block zero_body f_deposits
          "example_body_json\<lparr>json_RANDAOReveal := []\<rparr>"
          "\<lambda>input. Inr (example_body_json\<lparr>json_RANDAOReveal := []\<rparr>)" "''{}''" "[]"]
  have c4: "BlindedBeaconBlockBody_UnmarshalJSON
     (\<lambda>input. Inr (example_body_json\<lparr>json_RANDAOReveal := []\<rparr>)) ''{}'' zero_body =
     (Some (New ''RANDAO reveal missing''), zero_body)"
    by simp
  have i: "first_index (\<lambda>c. c = []) [[] :: string] = 0"
    by (simp add: first_index_def)
  from h5 i
    missing_field_is_error
      [of example_block_json zero_block zero_body f_deposits
          "example_body_json\<lparr>json_BlobKZGCommitments := Some [[] :: string]\<rparr>"
          "\<lambda>input. Inr example_body_json" "''{}''" "[[] :: string]"]
  have c5: "fst (BlindedBeaconBlockBody_unpack
          (example_body_json\<lparr>json_BlobKZGCommitments := Some [[] :: string]\<rparr>) zero_body) =
     Some (Errorf ''blob KZG commitments entry %d missing'' 0)"
    by simp
  from c1 c2 c3 c4 c5 show ?thesis
    by simp
qed

text \<open>
  C6 as stated fails: a document that has no \<^verbatim>\<open>eth1_data\<close> and whose
  \<^verbatim>\<open>randao_reveal\<close> is no hex string is rejected with the invalid-value error of the
  RANDAO reveal, which is checked first, not with a missing error that names
  \<^verbatim>\<open>eth1_data\<close>.
\<close>

theorem missing_field_counterexample:
  "field_absent f_eth1_data
     (example_body_json\<lparr>json_RANDAOReveal := ''0xzz'', json_ETH1Data := None\<rparr>) \<and>
   BlindedBeaconBlockBody_unpack
     (example_body_json\<lparr>json_RANDAOReveal := ''0xzz'', json_ETH1Data := None\<rparr>) zero_body =
     (Some (Wrap (InvalidByteError CHR ''z'') ''invalid value for RANDAO reveal''), zero_body)"
  by code_simp

text \<open>
  C7. A document that is valid in every other field and has no
  \<^verbatim>\<open>bls_to_execution_changes\<close> is unpacked with success, and the object then holds the
  empty sequence (not \<^verbatim>\<open>nil\<close>) there. Where the sequence is present and holds a
  \<^verbatim>\<open>null\<close> element, \<^verbatim>\<open>unpack\<close> fails, and (the checks before it passing) the error is
  the missing-entry error with the index of the first \<^verbatim>\<open>null\<close> element.
\<close>

theorem optional_bls_to_execution_changes:
  "(array_lengths b \<and> json_BLSToExecutionChanges d = None \<and>
    list_all (\<lambda>f. field_valid f d) (remove1 f_bls_to_execution_changes all_fields) \<longrightarrow>
      fst (BlindedBeaconBlockBody_unpack d b) = None \<and>
      BLSToExecutionChanges (snd (BlindedBeaconBlockBody_unpack d b)) = Some []) \<and>
   (array_lengths b \<and> json_BLSToExecutionChanges d = Some xs \<and> None \<in> set xs \<longrightarrow>
      fst (BlindedBeaconBlockBody_unpack d b) \<noteq> None \<and>
      first_index (\<lambda>x. x = None) xs < length xs \<and>
      xs ! first_index (\<lambda>x. x = None) xs = None \<and>
      (checks_before f_bls_to_execution_changes d \<longrightarrow>
         fst (BlindedBeaconBlockBody_unpack d b) =
           Some (Errorf ''bls to execution changes entry %d missing''
                   (first_index (\<lambda>x. x = None) xs))))"
proof -
  have p1: "array_lengths b \<and> json_BLSToExecutionChanges d = None \<and>
    list_all (\<lambda>f. field_valid f d) (remove1 f_bls_to_execution_changes all_fields) \<longrightarrow>
      fst (BlindedBeaconBlockBody_unpack d b) = None \<and>
      BLSToExecutionChanges (snd (BlindedBeaconBlockBody_unpack d b)) = Some []"
  proof
    assume a: "array_lengths b \<and> json_BLSToExecutionChanges d = None \<and>
      list_all (\<lambda>f. field_valid f d) (remove1 f_bls_to_execution_changes all_fields)"
    then have "valid_body d"
      by (simp add: valid_body_def all_fields_def)
    with a have "BlindedBeaconBlockBody_unpack d b = (None, fold (write_field d) all_fields b)"
      by (simp add: unpack_valid)
    with a show "fst (BlindedBeaconBlockBody_unpack d b) = None \<and>
      BLSToExecutionChanges (snd (BlindedBeaconBlockBody_unpack d b)) = Some []"
      by (simp add: all_fields_def)
  qed
  have p2: "array_lengths b \<and> json_BLSToExecutionChanges d = Some xs \<and> None \<in> set xs \<longrightarrow>
      fst (BlindedBeaconBlockBody_unpack d b) \<noteq> None \<and>
      first_index (\<lambda>x. x = None) xs < length xs \<and>
      xs ! first_index (\<lambda>x. x = None) xs = None \<and>
      (checks_before f_bls_to_execution_changes d \<longrightarrow>
         fst (BlindedBeaconBlockBody_unpack d b) =
           Some (Errorf ''bls to execution changes entry %d missing''
                   (first_index (\<lambda>x. x = None) xs)))"
  proof
    assume a: "array_lengths b \<and> json_BLSToExecutionChanges d = Some xs \<and> None \<in> set xs"
    then have nn: "\<not> list_all (\<lambda>x. \<not> x = None) xs"
      by (auto simp add: list_all_iff)
    with a have inv: "\<not> field_valid f_bls_to_execution_changes d"
      by simp
    from a have err: "field_error f_bls_to_execution_changes d =
        Errorf ''bls to execution changes entry %d missing'' (first_index (\<lambda>x. x = None) xs)"
      by (simp add: seq_field_error_def)
    from a inv err unpack_fails [of f_bls_to_execution_changes d b]
      unpack_error_at [of f_bls_to_execution_changes d b]
      first_index_less [OF nn] first_index_holds [OF nn]
    show "fst (BlindedBeaconBlockBody_unpack d b) \<noteq> None \<and>
      first_index (\<lambda>x. x = None) xs < length xs \<and>
      xs ! first_index (\<lambda>x. x = None) xs = None \<and>
      (checks_before f_bls_to_execution_changes d \<longrightarrow>
         fst (BlindedBeaconBlockBody_unpack d b) =
           Some (Errorf ''bls to execution changes entry %d missing''
                   (first_index (\<lambda>x. x = None) xs)))"
      by simp
  qed
  from p1 p2 show ?thesis
    by (intro conjI)
qed

theorem optional_bls_to_execution_changes_witness:
  "fst (BlindedBeaconBlockBody_unpack
          (example_body_json\<lparr>json_BLSToExecutionChanges := None\<rparr>) zero_body) = None \<and>
   BLSToExecutionChanges
     (snd (BlindedBeaconBlockBody_unpack
             (example_body_json\<lparr>json_BLSToExecutionChanges := None\<rparr>) zero_body)) = Some [] \<and>
   fst (BlindedBeaconBlockBody_unpack
          (example_body_json\<lparr>json_BLSToExecutionChanges := Some [Some 1, Some 2, None]\<rparr>)
          zero_body) = Some (Errorf ''bls to execution changes entry %d missing'' 2)"
proof -
  have h1: "array_lengths zero_body \<and>
            json_BLSToExecutionChanges (example_body_json\<lparr>json_BLSToExecutionChanges := None\<rparr>)
              = None \<and>
            list_all (\<lambda>f. field_valid f (example_body_json\<lparr>json_BLSToExecutionChanges := None\<rparr>))
              (remove1 f_bls_to_execution_changes all_fields)"
    by code_simp
  have h2: "array_lengths zero_body \<and>
            json_BLSToExecutionChanges
              (example_body_json\<lparr>json_BLSToExecutionChanges := Some [Some 1, Some 2, None]\<rparr>)
              = Some [Some 1, Some 2, None] \<and>
            None \<in> set [Some 1, Some 2, None :: nat option]"
    by code_simp
  have k2: "checks_before f_bls_to_execution_changes
              (example_body_json\<lparr>json_BLSToExecutionChanges := Some [Some 1, Some 2, None]\<rparr>)"
    by code_simp
  have i2: "first_index (\<lambda>x. x = None) [Some 1, Some 2, None :: nat option] = 2"
    by (simp add: first_index_def)
  from h1
    optional_bls_to_execution_changes
      [of zero_body "example_body_json\<lparr>json_BLSToExecutionChanges := None\<rparr>" "[]"]
  have c1: "fst (BlindedBeaconBlockBody_unpack
          (example_body_json\<lparr>json_BLSToExecutionChanges := None\<rparr>) zero_body) = None \<and>
   BLSToExecutionChanges
     (snd (BlindedBeaconBlockBody_unpack
             (example_body_json\<lparr>json_BLSToExecutionChanges := None\<rparr>) zero_body)) = Some []"
    by blast
  from h2 k2 i2
    optional_bls_to_execution_changes
      [of zero_body
          "example_body_json\<lparr>json_BLSToExecutionChanges := Some [Some 1, Some 2, None]\<rparr>"
          "[Some 1, Some 2, None]"]
  have c2: "fst (BlindedBeaconBlockBody_unpack
          (example_body_json\<lparr>json_BLSToExecutionChanges := Some [Some 1, Some 2, None]\<rparr>)
          zero_body) = Some (Errorf ''bls to execution changes entry %d missing'' 2)"
    by simp
  from c1 c2 show ?thesis
    by simp
qed

text \<open>
  C8, as amended. A mandatory sequence (proposer slashings, attester slashings,
  attestations, deposits, voluntary exits) that is present and holds a \<^verbatim>\<open>null\<close> element
  makes \<^verbatim>\<open>unpack\<close> fail, whatever the other fields are. Where the checks before the
  sequence pass, that is, where the sequence is the first field that is not valid, the
  error names the sequence and the index of its first \<^verbatim>\<open>null\<close> element: the least index
  whose element is \<^verbatim>\<open>null\<close>.
\<close>

theorem null_element_is_error:
  "(None \<in> set xs \<longrightarrow>
      first_index (\<lambda>x. x = None) xs < length xs \<and>
      xs ! first_index (\<lambda>x. x = None) xs = None \<and>
      (\<forall>j < first_index (\<lambda>x. x = None) xs. xs ! j \<noteq> None)) \<and>
   (array_lengths b \<and> json_ProposerSlashings d = Some ps \<and> None \<in> set ps \<longrightarrow>
      fst (BlindedBeaconBlockBody_unpack d b) \<noteq> None \<and>
      (checks_before f_proposer_slashings d \<longrightarrow>
         fst (BlindedBeaconBlockBody_unpack d b) =
           Some (Errorf ''proposer slashings entry %d missing'' (first_index (\<lambda>x. x = None) ps)))) \<and>
   (array_lengths b \<and> json_AttesterSlashings d = Some as \<and> None \<in> set as \<longrightarrow>
      fst (BlindedBeaconBlockBody_unpack d b) \<noteq> None \<and>
      (checks_before f_attester_slashings d \<longrightarrow>
         fst (BlindedBeaconBlockBody_unpack d b) =
           Some (Errorf ''attester slashings entry %d missing'' (first_index (\<lambda>x. x = None) as)))) \<and>
   (array_lengths b \<and> json_Attestations d = Some at \<and> None \<in> set at \<longrightarrow>
      fst (BlindedBeaconBlockBody_unpack d b) \<noteq> None \<and>
      (checks_before f_attestations d \<longrightarrow>
         fst (BlindedBeaconBlockBody_unpack d b) =
           Some (Errorf ''attestations entry %d missing'' (first_index (\<lambda>x. x = None) at)))) \<and>
   (array_lengths b \<and> json_Deposits d = Some ds \<and> None \<in> set ds \<longrightarrow>
      fst (BlindedBeaconBlockBody_unpack d b) \<noteq> None \<and>
      (checks_before f_deposits d \<longrightarrow>
         fst (BlindedBeaconBlockBody_unpack d b) =
           Some (Errorf ''deposits entry %d missing'' (first_index (\<lambda>x. x = None) ds)))) \<and>
   (array_lengths b \<and> json_VoluntaryExits d = Some vs \<and> None \<in> set vs \<longrightarrow>
      fst (BlindedBeaconBlockBody_unpack d b) \<noteq> None \<and>
      (checks_before f_voluntary_exits d \<longrightarrow>
         fst (BlindedBeaconBlockBody_unpack d b) =
           Some (Errorf ''voluntary exits entry %d missing'' (first_index (\<lambda>x. x = None) vs))))"
proof -
  have nn: "None \<in> set ys \<Longrightarrow> \<not> list_all (\<lambda>x. x \<noteq> None) ys" for ys :: "'z option list"
    by (auto simp add: list_all_iff)
  have p0: "(None \<in> set xs \<longrightarrow>
      first_index (\<lambda>x. x = None) xs < length xs \<and>
      xs ! first_index (\<lambda>x. x = None) xs = None \<and>
      (\<forall>j < first_index (\<lambda>x. x = None) xs. xs ! j \<noteq> None))"
    using first_index_less [of "\<lambda>x. x = None" xs] first_index_holds [of "\<lambda>x. x = None" xs]
      first_index_least [of _ "\<lambda>x. x = None" xs] nn [of xs]
    by auto
  have p1: "(array_lengths b \<and> json_ProposerSlashings d = Some ps \<and> None \<in> set ps \<longrightarrow>
      fst (BlindedBeaconBlockBody_unpack d b) \<noteq> None \<and>
      (checks_before f_proposer_slashings d \<longrightarrow>
         fst (BlindedBeaconBlockBody_unpack d b) =
           Some (Errorf ''proposer slashings entry %d missing'' (first_index (\<lambda>x. x = None) ps))))"
  proof (intro impI)
    assume a: "array_lengths b \<and> json_ProposerSlashings d = Some ps \<and> None \<in> set ps"
    with nn [of ps] have inv: "\<not> field_valid f_proposer_slashings d"
      by (simp add: valid_seq_def)
    from a nn [of ps] have err: "field_error f_proposer_slashings d =
        Errorf ''proposer slashings entry %d missing'' (first_index (\<lambda>x. x = None) ps)"
      by (simp add: seq_field_error_def)
    from a inv err unpack_fails [of f_proposer_slashings d b] unpack_error_at [of f_proposer_slashings d b]
    show "fst (BlindedBeaconBlockBody_unpack d b) \<noteq> None \<and>
      (checks_before f_proposer_slashings d \<longrightarrow>
         fst (BlindedBeaconBlockBody_unpack d b) =
           Some (Errorf ''proposer slashings entry %d missing'' (first_index (\<lambda>x. x = None) ps)))"
      by simp
  qed
  have p2: "(array_lengths b \<and> json_AttesterSlashings d = Some as \<and> None \<in> set as \<longrightarrow>
      fst (BlindedBeaconBlockBody_unpack d b) \<noteq> None \<and>
      (checks_before f_attester_slashings d \<longrightarrow>
         fst (BlindedBeaconBlockBody_unpack d b) =
           Some (Errorf ''attester slashings entry %d missing'' (first_index (\<lambda>x. x = None) as))))"
  proof (intro impI)
    assume a: "array_lengths b \<and> json_AttesterSlashings d = Some as \<and> None \<in> set as"
    with nn [of as] have inv: "\<not> field_valid f_attester_slashings d"
      by (simp add: valid_seq_def)
    from a nn [of as] have err: "field_error f_attester_slashings d =
        Errorf ''attester slashings entry %d missing'' (first_index (\<lambda>x. x = None) as)"
      by (simp add: seq_field_error_def)
    from a inv err unpack_fails [of f_attester_slashings d b] unpack_error_at [of f_attester_slashings d b]
    show "fst (BlindedBeaconBlockBody_unpack d b) \<noteq> None \<and>
      (checks_before f_attester_slashings d \<longrightarrow>
         fst (BlindedBeaconBlockBody_unpack d b) =
           Some (Errorf ''attester slashings entry %d missing'' (first_index (\<lambda>x. x = None) as)))"
      by simp
  qed
  have p3: "(array_lengths b \<and> json_Attestations d = Some at \<and> None \<in> set at \<longrightarrow>
      fst (BlindedBeaconBlockBody_unpack d b) \<noteq> None \<and>
      (checks_before f_attestations d \<longrightarrow>
         fst (BlindedBeaconBlockBody_unpack d b) =
           Some (Errorf ''attestations entry %d missing'' (first_index (\<lambda>x. x = None) at))))"
  proof (intro impI)
    assume a: "array_lengths b \<and> json_Attestations d = Some at \<and> None \<in> set at"
    with nn [of at] have inv: "\<not> field_valid f_attestations d"
      by (simp add: valid_seq_def)
    from a nn [of at] have err: "field_error f_attestations d =
        Errorf ''attestations entry %d missing'' (first_index (\<lambda>x. x = None) at)"
      by (simp add: seq_field_error_def)
    from a inv err unpack_fails [of f_attestations d b] unpack_error_at [of f_attestations d b]
    show "fst (BlindedBeaconBlockBody_unpack d b) \<noteq> None \<and>
      (checks_before f_attestations d \<longrightarrow>
         fst (BlindedBeaconBlockBody_unpack d b) =
           Some (Errorf ''attestations entry %d missing'' (first_index (\<lambda>x. x = None) at)))"
      by simp
  qed
  have p4: "(array_lengths b \<and> json_Deposits d = Some ds \<and> None \<in> set ds \<longrightarrow>
      fst (BlindedBeaconBlockBody_unpack d b) \<noteq> None \<and>
      (checks_before f_deposits d \<longrightarrow>
         fst (BlindedBeaconBlockBody_unpack d b) =
           Some (Errorf ''deposits entry %d missing'' (first_index (\<lambda>x. x = None) ds))))"
  proof (intro impI)
    assume a: "array_lengths b \<and> json_Deposits d = Some ds \<and> None \<in> set ds"
    with nn [of ds] have inv: "\<not> field_valid f_deposits d"
      by (simp add: valid_seq_def)
    from a nn [of ds] have err: "field_error f_deposits d =
        Errorf ''deposits entry %d missing'' (first_index (\<lambda>x. x = None) ds)"
      by (simp add: seq_field_error_def)
    from a inv err unpack_fails [of f_deposits d b] unpack_error_at [of f_deposits d b]
    show "fst (BlindedBeaconBlockBody_unpack d b) \<noteq> None \<and>
      (checks_before f_deposits d \<longrightarrow>
         fst (BlindedBeaconBlockBody_unpack d b) =
           Some (Errorf ''deposits entry %d missing'' (first_index (\<lambda>x. x = None) ds)))"
      by simp
  qed
  have p5: "(array_lengths b \<and> json_VoluntaryExits d = Some vs \<and> None \<in> set vs \<longrightarrow>
      fst (BlindedBeaconBlockBody_unpack d b) \<noteq> None \<and>
      (checks_before f_voluntary_exits d \<longrightarrow>
         fst (BlindedBeaconBlockBody_unpack d b) =
           Some (Errorf ''voluntary exits entry %d missing'' (first_index (\<lambda>x. x = None) vs))))"
  proof (intro impI)
    assume a: "array_lengths b \<and> json_VoluntaryExits d = Some vs \<and> None \<in> set vs"
    with nn [of vs] have inv: "\<not> field_valid f_voluntary_exits d"
      by (simp add: valid_seq_def)
    from a nn [of vs] have err: "field_error f_voluntary_exits d =
        Errorf ''voluntary exits entry %d missing'' (first_index (\<lambda>x. x = None) vs)"
      by (simp add: seq_field_error_def)
    from a inv err unpack_fails [of f_voluntary_exits d b] unpack_error_at [of f_voluntary_exits d b]
    show "fst (BlindedBeaconBlockBody_unpack d b) \<noteq> None \<and>
      (checks_before f_voluntary_exits d \<longrightarrow>
         fst (BlindedBeaconBlockBody_unpack d b) =
           Some (Errorf ''voluntary exits entry %d missing'' (first_index (\<lambda>x. x = None) vs)))"
      by simp
  qed
  from p0 p1 p2 p3 p4 p5 show ?thesis
    by (intro conjI)
qed

theorem null_element_is_error_witness:
  "fst (BlindedBeaconBlockBody_unpack (example_body_json\<lparr>json_Deposits := Some [None]\<rparr>)
          zero_body) = Some (Errorf ''deposits entry %d missing'' 0) \<and>
   fst (BlindedBeaconBlockBody_unpack
          (example_body_json\<lparr>json_Attestations := Some [Some 1, None, Some 3, None]\<rparr>)
          zero_body) = Some (Errorf ''attestations entry %d missing'' 1)"
proof -
  have h1: "array_lengths zero_body \<and>
            json_Deposits (example_body_json\<lparr>json_Deposits := Some [None]\<rparr>) = Some [None] \<and>
            None \<in> set [None :: nat option]"
    by code_simp
  have k1: "checks_before f_deposits (example_body_json\<lparr>json_Deposits := Some [None]\<rparr>)"
    by code_simp
  have i1: "first_index (\<lambda>x. x = None) [None :: nat option] = 0"
    by (simp add: first_index_def)
  have h2: "array_lengths zero_body \<and>
            json_Attestations
              (example_body_json\<lparr>json_Attestations := Some [Some 1, None, Some 3, None]\<rparr>) =
              Some [Some 1, None, Some 3, None] \<and>
            None \<in> set [Some 1, None, Some 3, None :: nat option]"
    by code_simp
  have k2: "checks_before f_attestations
              (example_body_json\<lparr>json_Attestations := Some [Some 1, None, Some 3, None]\<rparr>)"
    by code_simp
  have i2: "first_index (\<lambda>x. x = None) [Some 1, None, Some 3, None :: nat option] = 1"
    by (simp add: first_index_def)
  from h1 k1 i1
    null_element_is_error
      [of "[None :: nat option]" zero_body
          "example_body_json\<lparr>json_Deposits := Some [None]\<rparr>" "[]" "[]" "[]" "[None]" "[]"]
  have c1: "fst (BlindedBeaconBlockBody_unpack (example_body_json\<lparr>json_Deposits := Some [None]\<rparr>)
          zero_body) = Some (Errorf ''deposits entry %d missing'' 0)"
    by simp
  from h2 k2 i2
    null_element_is_error
      [of "[None :: nat option]" zero_body
          "example_body_json\<lparr>json_Attestations := Some [Some 1, None, Some 3, None]\<rparr>"
          "[]" "[]" "[Some 1, None, Some 3, None]" "[]" "[]"]
  have c2: "fst (BlindedBeaconBlockBody_unpack
          (example_body_json\<lparr>json_Attestations := Some [Some 1, None, Some 3, None]\<rparr>)
          zero_body) = Some (Errorf ''attestations entry %d missing'' 1)"
    by simp
  from c1 c2 show ?thesis
    by simp
qed


text \<open>
  C8 as stated fails: with \<^verbatim>\<open>null\<close> in both the proposer slashings and the deposits the
  error names the proposer slashings only, and with a graffiti that is no hex string the
  error is that of the graffiti; neither identifies the deposits.
\<close>

theorem null_element_counterexample:
  "fst (BlindedBeaconBlockBody_unpack
          (example_body_json\<lparr>json_ProposerSlashings := Some [None], json_Deposits := Some [None]\<rparr>)
          zero_body) = Some (Errorf ''proposer slashings entry %d missing'' 0) \<and>
   fst (BlindedBeaconBlockBody_unpack
          (example_body_json\<lparr>json_Graffiti := ''0xzz'', json_Deposits := Some [None]\<rparr>)
          zero_body) = Some (Wrap (InvalidByteError CHR ''z'') ''invalid value for graffiti'')"
  by code_simp

text \<open>
  C9. The output of \<^verbatim>\<open>SignedBlockContents.MarshalYAML\<close> holds no double quote: it is
  the output of the flow-style emitter with every double quote (byte 0x22) replaced by a
  single quote (byte 0x27), whatever the emitter wrote.
\<close>

theorem MarshalYAML_no_double_quote:
  "SignedBlockContents_MarshalYAML yaml_MarshalWithOptions s = Inr out \<Longrightarrow>
   CHR 0x22 \<notin> set out \<and>
   (\<exists>yamlBytes.
      yaml_MarshalWithOptions
        \<lparr>yaml_SignedBlock = SignedBlock s, yaml_KZGProofs = KZGProofs s, yaml_Blobs = Blobs s\<rparr>
        [Flow True] = Inr yamlBytes \<and>
      out = map (\<lambda>c. if c = CHR 0x22 then CHR 0x27 else c) yamlBytes)"
  by (auto simp add: SignedBlockContents_MarshalYAML_def ReplaceAll_single split: sum.splits)

theorem MarshalYAML_no_double_quote_witness:
  "SignedBlockContents_MarshalYAML
     (\<lambda>v opts. Inr (''{signed_block: null, kzg_proofs: ['' @ [CHR 0x22] @ ''0xab'' @ [CHR 0x22]
                      @ ''], blobs: []}''))
     \<lparr>SignedBlock = None :: nat SignedBeaconBlock option, KZGProofs = Some [[0xab]],
      Blobs = Some []\<rparr>
   = Inr ''{signed_block: null, kzg_proofs: ['0xab'], blobs: []}'' \<and>
   CHR 0x22 \<notin> set ''{signed_block: null, kzg_proofs: ['0xab'], blobs: []}''"
proof -
  have run: "SignedBlockContents_MarshalYAML
     (\<lambda>v opts. Inr (''{signed_block: null, kzg_proofs: ['' @ [CHR 0x22] @ ''0xab'' @ [CHR 0x22]
                      @ ''], blobs: []}''))
     \<lparr>SignedBlock = None :: nat SignedBeaconBlock option, KZGProofs = Some [[0xab]],
      Blobs = Some []\<rparr>
   = Inr ''{signed_block: null, kzg_proofs: ['0xab'], blobs: []}''"
    by (simp add: SignedBlockContents_MarshalYAML_def ReplaceAll_single)
  from MarshalYAML_no_double_quote [OF run] run show ?thesis
    by blast
qed

text \<open>
  C10, as amended. The string \<^verbatim>\<open>0x\<close> in a mandatory hex field is a present value: it
  is not empty, the prefix is stripped and no bytes are decoded, so that the field fails its
  length check and never its missing check. \<^verbatim>\<open>unpack\<close> then returns the
  incorrect-length error of that field where the field is the first thing that is not
  valid: for the signature of a signed block, the message being present; for the RANDAO
  reveal, always, as it is checked first; for the graffiti, the checks before it passing;
  for a blob KZG commitment, the checks before the commitments passing and the other
  commitments being valid.
\<close>

theorem bare_prefix_is_length_error:
  "DecodeString (TrimPrefix ''0x'' ''0x'') = Inr [] \<and>
   (json_Message sd \<noteq> None \<and> json_Signature sd = ''0x'' \<longrightarrow>
      SignedBeaconBlock_unpack sd s =
        (Some (Errorf ''incorrect length %d for signature'' 0), s\<lparr>Message := json_Message sd\<rparr>)) \<and>
   (json_RANDAOReveal d = ''0x'' \<longrightarrow>
      BlindedBeaconBlockBody_unpack d b = (Some (New ''incorrect length for RANDAO reveal''), b)) \<and>
   (array_lengths b \<and> checks_before f_graffiti d \<and> json_Graffiti d = ''0x'' \<longrightarrow>
      fst (BlindedBeaconBlockBody_unpack d b) = Some (New ''incorrect length for graffiti'')) \<and>
   (array_lengths b \<and> checks_before f_blob_kzg_commitments d \<and>
    json_BlobKZGCommitments d = Some cs \<and> ''0x'' \<in> set cs \<and>
    list_all (\<lambda>c. c = ''0x'' \<or> valid_hex KZGCommitmentLength c) cs \<longrightarrow>
      fst (BlindedBeaconBlockBody_unpack d b) =
        Some (New ''incorrect length for blob KZG commitment''))"
proof (intro conjI impI)
  show "DecodeString (TrimPrefix ''0x'' ''0x'') = Inr []"
    by (simp add: DecodeString_def TrimPrefix_def)
next
  assume "json_Message sd \<noteq> None \<and> json_Signature sd = ''0x''"
  then show "SignedBeaconBlock_unpack sd s =
      (Some (Errorf ''incorrect length %d for signature'' 0), s\<lparr>Message := json_Message sd\<rparr>)"
    by (simp add: SignedBeaconBlock_unpack_def DecodeString_def TrimPrefix_def
          SignatureLength_def)
next
  assume "json_RANDAOReveal d = ''0x''"
  then have "\<not> valid_hex SignatureLength (json_RANDAOReveal d)"
    and "field_error f_randao_reveal d = New ''incorrect length for RANDAO reveal''"
    by (simp_all add: valid_hex_def hex_field_error_def DecodeString_def TrimPrefix_def
          SignatureLength_def)
  then show "BlindedBeaconBlockBody_unpack d b =
      (Some (New ''incorrect length for RANDAO reveal''), b)"
    using unpack_RANDAOReveal_first [of d b] by simp
next
  assume a: "array_lengths b \<and> checks_before f_graffiti d \<and> json_Graffiti d = ''0x''"
  then have "\<not> field_valid f_graffiti d"
    and "field_error f_graffiti d = New ''incorrect length for graffiti''"
    by (simp_all add: valid_hex_def hex_field_error_def DecodeString_def TrimPrefix_def
          GraffitiLength_def)
  with a show "fst (BlindedBeaconBlockBody_unpack d b) =
      Some (New ''incorrect length for graffiti'')"
    using unpack_error_at [of f_graffiti d b] by simp
next
  assume a: "array_lengths b \<and> checks_before f_blob_kzg_commitments d \<and>
    json_BlobKZGCommitments d = Some cs \<and> ''0x'' \<in> set cs \<and>
    list_all (\<lambda>c. c = ''0x'' \<or> valid_hex KZGCommitmentLength c) cs"
  have bad: "\<not> valid_hex KZGCommitmentLength ''0x''"
    by (simp add: valid_hex_def DecodeString_def TrimPrefix_def KZGCommitmentLength_def)
  with a have nv: "\<not> list_all (\<lambda>c. \<not> \<not> valid_hex KZGCommitmentLength c) cs"
    by (auto simp add: list_all_iff)
  let ?k = "first_bad_commitment cs"
  have "?k < length cs" and "\<not> valid_hex KZGCommitmentLength (cs ! ?k)"
    using first_index_less [OF nv] first_index_holds [OF nv]
    by (simp_all add: first_bad_commitment_def)
  with a have k: "cs ! ?k = ''0x''"
    by (auto simp add: list_all_length)
  from a bad have ne: "list_all (\<lambda>c. c \<noteq> []) cs"
    by (auto simp add: list_all_iff valid_hex_def)
  from a nv have "\<not> field_valid f_blob_kzg_commitments d"
    by simp
  moreover from a ne k have "field_error f_blob_kzg_commitments d =
      New ''incorrect length for blob KZG commitment''"
    by (simp add: commitments_error_def commitment_error_def DecodeString_def TrimPrefix_def)
  ultimately show "fst (BlindedBeaconBlockBody_unpack d b) =
      Some (New ''incorrect length for blob KZG commitment'')"
    using a unpack_error_at [of f_blob_kzg_commitments d b] by simp
qed

theorem bare_prefix_is_length_error_witness:
  "SignedBeaconBlock_unpack (example_block_json\<lparr>json_Signature := ''0x''\<rparr>) zero_block =
     (Some (Errorf ''incorrect length %d for signature'' 0), zero_block\<lparr>Message := Some 7\<rparr>) \<and>
   BlindedBeaconBlockBody_unpack (example_body_json\<lparr>json_RANDAOReveal := ''0x''\<rparr>) zero_body =
     (Some (New ''incorrect length for RANDAO reveal''), zero_body) \<and>
   fst (BlindedBeaconBlockBody_unpack (example_body_json\<lparr>json_Graffiti := ''0x''\<rparr>) zero_body) =
     Some (New ''incorrect length for graffiti'') \<and>
   fst (BlindedBeaconBlockBody_unpack
          (example_body_json\<lparr>json_BlobKZGCommitments := Some [''0x'']\<rparr>) zero_body) =
     Some (New ''incorrect length for blob KZG commitment'')"
proof -
  have h1: "json_Message (example_block_json\<lparr>json_Signature := ''0x''\<rparr>) \<noteq> None \<and>
            json_Signature (example_block_json\<lparr>json_Signature := ''0x''\<rparr>) = ''0x''"
    by (simp add: example_block_json_def)
  have h2: "json_RANDAOReveal (example_body_json\<lparr>json_RANDAOReveal := ''0x''\<rparr>) = ''0x''"
    by simp
  have h3: "array_lengths zero_body \<and>
            checks_before f_graffiti (example_body_json\<lparr>json_Graffiti := ''0x''\<rparr>) \<and>
            json_Graffiti (example_body_json\<lparr>json_Graffiti := ''0x''\<rparr>) = ''0x''"
    by code_simp
  have h4: "array_lengths zero_body \<and>
            checks_before f_blob_kzg_commitments
              (example_body_json\<lparr>json_BlobKZGCommitments := Some [''0x'']\<rparr>) \<and>
            json_BlobKZGCommitments (example_body_json\<lparr>json_BlobKZGCommitments := Some [''0x'']\<rparr>)
              = Some [''0x''] \<and>
            ''0x'' \<in> set [''0x''] \<and>
            list_all (\<lambda>c. c = ''0x'' \<or> valid_hex KZGCommitmentLength c) [''0x'']"
    by code_simp
  have m: "json_Message example_block_json = Some 7"
    by (simp add: example_block_json_def)
  from h1 m
    bare_prefix_is_length_error
      [of "example_block_json\<lparr>json_Signature := ''0x''\<rparr>" zero_block
          "example_body_json\<lparr>json_RANDAOReveal := ''0x''\<rparr>" zero_body "[]"]
  have c1: "SignedBeaconBlock_unpack (example_block_json\<lparr>json_Signature := ''0x''\<rparr>) zero_block =
     (Some (Errorf ''incorrect length %d for signature'' 0), zero_block\<lparr>Message := Some 7\<rparr>)"
    and c2: "BlindedBeaconBlockBody_unpack (example_body_json\<lparr>json_RANDAOReveal := ''0x''\<rparr>)
       zero_body = (Some (New ''incorrect length for RANDAO reveal''), zero_body)"
    by simp_all
  from h3
    bare_prefix_is_length_error
      [of example_block_json zero_block "example_body_json\<lparr>json_Graffiti := ''0x''\<rparr>"
          zero_body "[]"]
  have c3: "fst (BlindedBeaconBlockBody_unpack (example_body_json\<lparr>json_Graffiti := ''0x''\<rparr>)
       zero_body) = Some (New ''incorrect length for graffiti'')"
    by blast
  from h4
    bare_prefix_is_length_error
      [of example_block_json zero_block
          "example_body_json\<lparr>json_BlobKZGCommitments := Some [''0x'']\<rparr>" zero_body "[''0x'']"]
  have c4: "fst (BlindedBeaconBlockBody_unpack
          (example_body_json\<lparr>json_BlobKZGCommitments := Some [''0x'']\<rparr>) zero_body) =
     Some (New ''incorrect length for blob KZG commitment'')"
    by blast
  from c1 c2 c3 c4 show ?thesis
    by simp
qed

text \<open>
  C10 as stated fails: a graffiti \<^verbatim>\<open>0x\<close> in a document that has no \<^verbatim>\<open>eth1_data\<close> is
  rejected with the missing error of \<^verbatim>\<open>eth1_data\<close>, which is checked first, not with
  the length error of the graffiti.
\<close>

theorem bare_prefix_counterexample:
  "BlindedBeaconBlockBody_unpack
     (example_body_json\<lparr>json_ETH1Data := None, json_Graffiti := ''0x''\<rparr>) zero_body =
     (Some (New ''ETH1 data missing''), zero_body\<lparr>RANDAOReveal := replicate 96 1\<rparr>)"
  by code_simp

end
